theory Spec2Isabelle
  imports Complex_Main
begin

section \<open>Python values used by the training bench\<close>

text \<open>
  The exceptions that the two source files can raise by themselves: the explicit
  \<^verbatim>\<open>raise ValueError(...)\<close> of \<^verbatim>\<open>train.py\<close>, a division by zero, the
  read of a local variable that was never assigned, an attribute access on
  \<^verbatim>\<open>None\<close>, and the opening of a file whose directory is gone. Calls into the
  numeric framework are taken to return normally.
\<close>

datatype py_error =
    ValueError string
  | ZeroDivisionError
  | UnboundLocalError
  | AttributeError
  | FileNotFoundError

text \<open>
  A Python float: a finite value, one of the two infinities, or NaN. Finite values are
  carried as reals, so the rounding of the machine arithmetic is idealised; the
  special values behave as IEEE 754 has them.
\<close>

datatype pyfloat = Fin real | PInf | NInf | NaN

fun isnan :: "pyfloat \<Rightarrow> bool" where
  "isnan NaN = True"
| "isnan _ = False"

text \<open>\<^verbatim>\<open>a < b\<close> on floats: false as soon as one side is NaN.\<close>

fun pf_lt :: "pyfloat \<Rightarrow> pyfloat \<Rightarrow> bool" where
  "pf_lt NaN _ = False"
| "pf_lt _ NaN = False"
| "pf_lt (Fin a) (Fin b) = (a < b)"
| "pf_lt (Fin _) PInf = True"
| "pf_lt (Fin _) NInf = False"
| "pf_lt PInf _ = False"
| "pf_lt NInf NInf = False"
| "pf_lt NInf _ = True"

definition pf_gt :: "pyfloat \<Rightarrow> pyfloat \<Rightarrow> bool" where
  "pf_gt a b = pf_lt b a"

definition pf_le :: "pyfloat \<Rightarrow> pyfloat \<Rightarrow> bool" where
  "pf_le a b = (\<not> isnan a \<and> \<not> isnan b \<and> \<not> pf_lt b a)"

text \<open>\<^verbatim>\<open>a + b\<close> on floats.\<close>

fun pf_add :: "pyfloat \<Rightarrow> pyfloat \<Rightarrow> pyfloat" where
  "pf_add NaN _ = NaN"
| "pf_add _ NaN = NaN"
| "pf_add (Fin a) (Fin b) = Fin (a + b)"
| "pf_add (Fin _) PInf = PInf"
| "pf_add (Fin _) NInf = NInf"
| "pf_add PInf NInf = NaN"
| "pf_add PInf _ = PInf"
| "pf_add NInf PInf = NaN"
| "pf_add NInf _ = NInf"

text \<open>
  \<^verbatim>\<open>metric_value_sum / step\<close> with \<^verbatim>\<open>step\<close> a non-negative Python integer.
  With \<^verbatim>\<open>step == 0\<close> no batch has run, the dividend is still the Python float
  \<^verbatim>\<open>0.0\<close>, and Python raises \<^verbatim>\<open>ZeroDivisionError\<close>.
\<close>

fun pf_div_nat :: "pyfloat \<Rightarrow> nat \<Rightarrow> py_error + pyfloat" where
  "pf_div_nat x 0 = Inl ZeroDivisionError"
| "pf_div_nat (Fin a) n = Inr (Fin (a / real n))"
| "pf_div_nat x n = Inr x"

text \<open>
  \<^verbatim>\<open>math.ceil(a / b)\<close> for Python integers: true division, then the ceiling, an
  integer. The division raises when \<^verbatim>\<open>b\<close> is zero.
\<close>

definition py_ceil_div :: "int \<Rightarrow> int \<Rightarrow> py_error + int" where
  "py_ceil_div a b =
     (if b = 0 then Inl ZeroDivisionError
      else Inr \<lceil>real_of_int a / real_of_int b\<rceil>)"

text \<open>\<^verbatim>\<open>str(n)\<close> of a non-negative integer, for the formatted messages.\<close>

definition digit_char :: "nat \<Rightarrow> char" where
  "digit_char d = ''0123456789'' ! d"

fun str_nat :: "nat \<Rightarrow> string" where
  "str_nat n = (if n < 10 then [digit_char n] else str_nat (n div 10) @ [digit_char (n mod 10)])"

declare str_nat.simps [simp del]

section \<open>The evaluator (\<^verbatim>\<open>dytb/evaluators/Evaluator.py\<close>)\<close>

datatype InputType = train | validation | test

text \<open>
  \<^verbatim>\<open>predictions\<close> and \<^verbatim>\<open>targets\<close> as handed to the metric function: the single
  tensor when there is exactly one, the whole list otherwise.
\<close>

datatype 't fn_arg = Single 't | Many "'t list"

text \<open>An element of \<^verbatim>\<open>self.metrics\<close>: the dictionary with its five keys.\<close>

record 't metric =
  fn :: "'t fn_arg \<Rightarrow> 't fn_arg \<Rightarrow> 't"
  name :: string
  positive_trend_sign :: int
  model_selection :: bool
  average :: bool

text \<open>
  The parts of the \<^verbatim>\<open>Input\<close> and \<^verbatim>\<open>Model\<close> interfaces that \<^verbatim>\<open>eval\<close> calls.
  \<^verbatim>\<open>inputs\<close> yields the input batch followed by the targets, \<^verbatim>\<open>get\<close> yields a
  first value followed by the predictions.
\<close>

record ('t, 'a) Dataset =
  inputs :: "InputType \<Rightarrow> int \<Rightarrow> 'a option \<Rightarrow> 't \<times> 't list"
  num_classes :: nat
  num_examples :: "InputType \<Rightarrow> nat"
  dataset_name :: string

record 't Model =
  get :: "'t \<Rightarrow> nat \<Rightarrow> bool \<Rightarrow> pyfloat \<Rightarrow> 't \<times> 't list"
  model_name :: string

text \<open>
  The object state of an \<^verbatim>\<open>Evaluator\<close>: the private fields \<^verbatim>\<open>_model\<close> and
  \<^verbatim>\<open>_dataset\<close> (\<open>None\<close> is Python's \<^verbatim>\<open>None\<close>) and the list the subclass gives
  for the abstract property \<^verbatim>\<open>metrics\<close>.
\<close>

record ('t, 'a) Evaluator =
  u_model :: "'t Model option"
  u_dataset :: "('t, 'a) Dataset option"
  metrics :: "'t metric list"

definition init :: "'t metric list \<Rightarrow> ('t, 'a) Evaluator" where
  "init ms = \<lparr>u_model = None, u_dataset = None, metrics = ms\<rparr>"

definition model :: "('t, 'a) Evaluator \<Rightarrow> 't Model option" where
  "model self = u_model self"

definition model_setter :: "('t, 'a) Evaluator \<Rightarrow> 't Model option \<Rightarrow> ('t, 'a) Evaluator" where
  "model_setter self m = self\<lparr>u_model := m\<rparr>"

definition dataset :: "('t, 'a) Evaluator \<Rightarrow> ('t, 'a) Dataset option" where
  "dataset self = u_dataset self"

definition dataset_setter ::
  "('t, 'a) Evaluator \<Rightarrow> ('t, 'a) Dataset option \<Rightarrow> ('t, 'a) Evaluator" where
  "dataset_setter self d = self\<lparr>u_dataset := d\<rparr>"

subsection \<open>The framework as seen from \<^verbatim>\<open>eval\<close>\<close>

text \<open>
  What \<^verbatim>\<open>tf.train.get_checkpoint_state\<close> returns (or \<^verbatim>\<open>None\<close>), and the answers
  of the session and of the coordinator during one call of \<^verbatim>\<open>eval\<close>:
  \<^item> \<open>sess_run p op i\<close> is the value of the \<open>i\<close>-th \<^verbatim>\<open>sess.run(metric_fn)\<close> (counted
    from 0) in a session restored from the checkpoint \<open>p\<close>;
  \<^item> \<open>should_stop i\<close> is the answer of \<^verbatim>\<open>coord.should_stop()\<close> when the loop test
    is taken with \<^verbatim>\<open>step == i\<close>;
  \<^item> \<open>join_reraises\<close> tells whether \<^verbatim>\<open>coord.join\<close> raises again the exception that
    was handed to \<^verbatim>\<open>coord.request_stop(exc)\<close>, or returns normally.
\<close>

record CheckpointState =
  model_checkpoint_path :: string

record 't framework =
  get_checkpoint_state :: "string \<Rightarrow> CheckpointState option"
  sess_run :: "string \<Rightarrow> 't \<Rightarrow> nat \<Rightarrow> pyfloat"
  should_stop :: "nat \<Rightarrow> bool"
  join_reraises :: bool

text \<open>
  What one call of \<^verbatim>\<open>eval\<close> does: its result (\<open>Inl\<close> an exception, \<open>Inr None\<close>
  the bare \<^verbatim>\<open>return\<close>, \<open>Inr (Some v)\<close> a returned float), the lines it printed, the
  checkpoint handed to \<^verbatim>\<open>saver.restore\<close>, the number of \<^verbatim>\<open>sess.run(metric_fn)\<close>
  calls, and the exception handed to \<^verbatim>\<open>coord.request_stop(exc)\<close> by the handler.
\<close>

record eval_outcome =
  result :: "py_error + pyfloat option"
  printed :: "string list"
  restored :: "string option"
  batches :: nat
  reported :: "py_error option"

definition cardinality_message :: "string \<Rightarrow> string \<Rightarrow> nat \<Rightarrow> nat \<Rightarrow> string" where
  "cardinality_message mn dn np nt =
     mn @ ''.get 2nd return value and '' @ dn @ ''.inputs 2nd return ''
        @ ''value must have the same cardinality but got: ''
        @ str_nat np @ '' vs '' @ str_nat nt"

text \<open>\<^verbatim>\<open>math.copysign(1, x)\<close> for an integer \<open>x\<close>.\<close>

definition copysign1 :: "int \<Rightarrow> pyfloat" where
  "copysign1 x = (if x < 0 then Fin (- 1) else Fin 1)"

text \<open>
  The \<^verbatim>\<open>while step < num_iter and not coord.should_stop()\<close> loop: it returns the
  final \<^verbatim>\<open>step\<close> and \<^verbatim>\<open>metric_value_sum\<close>.
\<close>

function eval_loop ::
  "(nat \<Rightarrow> bool) \<Rightarrow> (nat \<Rightarrow> pyfloat) \<Rightarrow> int \<Rightarrow> nat \<Rightarrow> pyfloat \<Rightarrow> nat \<times> pyfloat" where
  "eval_loop stop run num_iter step metric_value_sum =
     (if int step < num_iter \<and> \<not> stop step
      then eval_loop stop run num_iter (step + 1) (pf_add metric_value_sum (run step))
      else (step, metric_value_sum))"
  by pat_completeness auto
termination
  by (relation "measure (\<lambda>(stop, run, num_iter, step, s). nat (num_iter - int step))") auto

declare eval_loop.simps [simp del]

text \<open>
  The body of the \<^verbatim>\<open>try\<close> block: the number of batches run, and either the
  exception raised inside the block or the value assigned to \<^verbatim>\<open>avg_metric_value\<close>.
\<close>

definition eval_try ::
  "(nat \<Rightarrow> bool) \<Rightarrow> (nat \<Rightarrow> pyfloat) \<Rightarrow> nat \<Rightarrow> int \<Rightarrow> bool \<Rightarrow> nat \<times> (py_error + pyfloat)" where
  "eval_try stop run n_examples batch_size avg =
     (case py_ceil_div (int n_examples) batch_size of
        Inl e \<Rightarrow> (0, Inl e)
      | Inr num_iter \<Rightarrow>
          (case eval_loop stop run num_iter 0 (Fin 0) of
             (step, metric_value_sum) \<Rightarrow>
               (step, if avg then pf_div_nat metric_value_sum step else Inr metric_value_sum)))"

text \<open>
  After the \<^verbatim>\<open>try\<close> statement: \<^verbatim>\<open>coord.join(threads)\<close>, then
  \<^verbatim>\<open>return avg_metric_value\<close>, which fails when the variable was never assigned.
\<close>

definition eval_finish :: "bool \<Rightarrow> py_error + pyfloat \<Rightarrow> py_error + pyfloat option" where
  "eval_finish reraise r =
     (case r of
        Inl exc \<Rightarrow> if reraise then Inl exc else Inl UnboundLocalError
      | Inr avg_metric_value \<Rightarrow> Inr (Some avg_metric_value))"

text \<open>
  The test \<^verbatim>\<open>ckpt and ckpt.model_checkpoint_path\<close>: the path to restore, if any.
\<close>

definition checkpoint_found :: "CheckpointState option \<Rightarrow> string option" where
  "checkpoint_found ckpt =
     (case ckpt of
        None \<Rightarrow> None
      | Some c \<Rightarrow> if model_checkpoint_path c = [] then None else Some (model_checkpoint_path c))"

text \<open>
  \<^verbatim>\<open>metric["fn"](predictions, targets)\<close>, after the unwrapping of singleton lists.
\<close>

definition build_metric_fn :: "'t metric \<Rightarrow> 't list \<Rightarrow> 't list \<Rightarrow> 't" where
  "build_metric_fn metric predictions targets =
     (if length predictions = 1
      then fn metric (Single (predictions ! 0)) (Single (targets ! 0))
      else fn metric (Many predictions) (Many targets))"

text \<open>
  \<^verbatim>\<open>eval\<close>. Its \<^verbatim>\<open>input_type\<close> is a member of the enumeration, which
  \<^verbatim>\<open>InputType.check\<close> accepts; \<^verbatim>\<open>self.dataset\<close> and \<^verbatim>\<open>self._model\<close> are read in the
  order of the source, and an attribute of \<^verbatim>\<open>None\<close> raises.
\<close>

definition eval ::
  "('t, 'a) Evaluator \<Rightarrow> 't framework \<Rightarrow> 't metric \<Rightarrow> string \<Rightarrow> InputType \<Rightarrow> int \<Rightarrow> 'a option
     \<Rightarrow> eval_outcome" where
  "eval self tf metric checkpoint_path input_type batch_size augmentation_fn =
     (case u_dataset self of
        None \<Rightarrow> \<lparr>result = Inl AttributeError, printed = [], restored = None, batches = 0,
                 reported = None\<rparr>
      | Some ds \<Rightarrow>
     (case inputs ds input_type batch_size augmentation_fn of (inps, targets) \<Rightarrow>
     (case u_model self of
        None \<Rightarrow> \<lparr>result = Inl AttributeError, printed = [], restored = None, batches = 0,
                 reported = None\<rparr>
      | Some md \<Rightarrow>
     (case get md inps (num_classes ds) False (Fin 0) of (_, predictions) \<Rightarrow>
       if length predictions \<noteq> length targets
       then \<lparr>result = Inr None,
             printed = [cardinality_message (model_name md) (dataset_name ds)
                          (length predictions) (length targets)],
             restored = None, batches = 0, reported = None\<rparr>
       else
         let metric_fn = build_metric_fn metric predictions targets in
         (case checkpoint_found (get_checkpoint_state tf checkpoint_path) of
            Some path \<Rightarrow>
              (case eval_try (should_stop tf) (sess_run tf path metric_fn)
                      (num_examples ds input_type) batch_size (average metric) of
                 (n, r) \<Rightarrow>
                   \<lparr>result = eval_finish (join_reraises tf) r,
                    printed = [],
                    restored = Some path,
                    batches = n,
                    reported = (case r of Inl exc \<Rightarrow> Some exc | Inr _ \<Rightarrow> None)\<rparr>)
          | None \<Rightarrow>
              let sign = copysign1 (positive_trend_sign metric) in
              \<lparr>result = Inr (Some (if pf_lt sign (Fin 0) then PInf else NInf)),
               printed = [''[!] No checkpoint file found''],
               restored = None, batches = 0, reported = None\<rparr>)))))"

text \<open>A dictionary comprehension \<^verbatim>\<open>{metric["name"]: f(metric) for metric in ms}\<close>:
  the metrics are visited in order, a later entry replaces an earlier one with the same
  name, and an exception raised by \<open>f\<close> ends the comprehension.\<close>

fun dict_comprehension ::
  "('t metric \<Rightarrow> py_error + 'v) \<Rightarrow> 't metric list \<Rightarrow> (string \<rightharpoonup> 'v) \<Rightarrow> py_error + (string \<rightharpoonup> 'v)" where
  "dict_comprehension f [] d = Inr d"
| "dict_comprehension f (metric # ms) d =
     (case f metric of
        Inl e \<Rightarrow> Inl e
      | Inr v \<Rightarrow> dict_comprehension f ms (d(name metric \<mapsto> v)))"

definition stats ::
  "('t, 'a) Evaluator \<Rightarrow> 't framework \<Rightarrow> string \<Rightarrow> int \<Rightarrow> 'a option
     \<Rightarrow> py_error + (string \<rightharpoonup> (string \<rightharpoonup> pyfloat option))" where
  "stats self tf checkpoint_path batch_size augmentation_fn =
     (let per_split = (\<lambda>input_type.
            dict_comprehension
              (\<lambda>metric. result (eval self tf metric checkpoint_path input_type batch_size
                                   augmentation_fn))
              (metrics self) Map.empty)
      in
      case per_split train of Inl e \<Rightarrow> Inl e | Inr d_train \<Rightarrow>
      (case per_split validation of Inl e \<Rightarrow> Inl e | Inr d_validation \<Rightarrow>
      (case per_split test of Inl e \<Rightarrow> Inl e | Inr d_test \<Rightarrow>
         Inr [''train'' \<mapsto> d_train, ''validation'' \<mapsto> d_validation, ''test'' \<mapsto> d_test])))"

section \<open>The training script (\<^verbatim>\<open>train.py\<close>)\<close>

text \<open>
  The module-level names that the functions of \<^verbatim>\<open>train.py\<close> read: the parsed
  command line (\<^verbatim>\<open>ARGS\<close>), \<^verbatim>\<open>NAME\<close>, the class of \<^verbatim>\<open>MODEL\<close> as far as the
  \<^verbatim>\<open>isinstance\<close> tests see it, the size of the training split of \<^verbatim>\<open>DATASET\<close>,
  and the directory of the script.
\<close>

record globals =
  ARGS_batch_size :: int
  ARGS_epochs :: int
  ARGS_restart :: bool
  ARGS_model :: string
  NAME :: string
  MODEL_is_Classifier :: bool
  MODEL_is_Autoencoder :: bool
  DATASET_num_examples_train :: nat
  CURRENT_DIR :: string

text \<open>\<^verbatim>\<open>os.path.join\<close> of two components (POSIX).\<close>

definition path_join :: "string \<Rightarrow> string \<Rightarrow> string" where
  "path_join a b =
     (if b \<noteq> [] \<and> hd b = CHR ''/'' then b
      else if a = [] \<or> last a = CHR ''/'' then a @ b
      else a @ ''/'' @ b)"

text \<open>
  The constants of the main block. With a batch size of zero the division raises there,
  before any function reads them (see \<open>main\<close> below).
\<close>

definition STEPS_PER_EPOCH :: "globals \<Rightarrow> int" where
  "STEPS_PER_EPOCH g =
     \<lceil>real (DATASET_num_examples_train g) / real_of_int (ARGS_batch_size g)\<rceil>"

definition MAX_STEPS :: "globals \<Rightarrow> int" where
  "MAX_STEPS g = STEPS_PER_EPOCH g * ARGS_epochs g"

definition LOG_DIR :: "globals \<Rightarrow> string" where
  "LOG_DIR g = path_join (path_join (path_join (CURRENT_DIR g) ''log'') (ARGS_model g)) (NAME g)"

definition BEST_MODEL_DIR :: "globals \<Rightarrow> string" where
  "BEST_MODEL_DIR g = path_join (LOG_DIR g) ''best''"

text \<open>
  The checkpoint directories: for each directory the \<^verbatim>\<open>global_step\<close> label of the
  newest checkpoint in it, if there is one. \<^verbatim>\<open>saver.save(sess, path, global_step=step)\<close>
  makes \<open>step\<close> the newest checkpoint of the directory of \<open>path\<close>.
\<close>

type_synonym checkpoints = "string \<Rightarrow> int option"

text \<open>
  The answers of the framework, of the missing module \<^verbatim>\<open>evaluate\<close> and of the clock
  during one run of the script:
  \<^item> \<open>restored_global_step c\<close>: the value of \<^verbatim>\<open>global_step\<close> after restoring \<open>c\<close>;
  \<^item> \<open>loss_value step\<close>: the loss returned by \<^verbatim>\<open>sess.run([train_op, loss])\<close>;
  \<^item> \<open>evaluate_accuracy dir c t\<close>, \<open>evaluate_error dir c t\<close>: the results of
    \<^verbatim>\<open>evaluate.accuracy\<close> and \<^verbatim>\<open>evaluate.error\<close> on directory \<open>dir\<close>, whose newest
    checkpoint is \<open>c\<close>, for the input type \<open>t\<close>;
  \<^item> \<open>progress_line step\<close>, \<open>epoch_line step\<close>: the formatted lines printed every ten
    steps and at the end of an epoch (they hold wall-clock times; the measured
    \<^verbatim>\<open>duration\<close> is taken to be positive);
  \<^item> \<open>now i\<close>: \<^verbatim>\<open>str(datetime.now())\<close> at the \<open>i\<close>-th line written by the main block;
  \<^item> \<open>str_float\<close>: \<^verbatim>\<open>str\<close> of a float;
  \<^item> \<open>inside p d\<close>: as the file system resolves the two paths, \<open>p\<close> names the directory
    \<open>d\<close> itself or something in the tree below it.
\<close>

record train_env =
  restored_global_step :: "int \<Rightarrow> nat"
  loss_value :: "int \<Rightarrow> pyfloat"
  evaluate_accuracy :: "string \<Rightarrow> int option \<Rightarrow> InputType \<Rightarrow> pyfloat"
  evaluate_error :: "string \<Rightarrow> int option \<Rightarrow> InputType \<Rightarrow> pyfloat"
  progress_line :: "int \<Rightarrow> string"
  epoch_line :: "int \<Rightarrow> string"
  now :: "nat \<Rightarrow> string"
  str_float :: "pyfloat \<Rightarrow> string"
  inside :: "string \<Rightarrow> string \<Rightarrow> bool"

text \<open>
  The argument \<^verbatim>\<open>input_type\<close> of \<^verbatim>\<open>eval_model\<close> is any Python object: a member
  of the enumeration \<^verbatim>\<open>InputType\<close> or something else.
\<close>

datatype py_object = InputTypeValue InputType | OtherObject

datatype evaluate_call = Accuracy string InputType | Error string InputType

text \<open>
  \<^verbatim>\<open>eval_model\<close>: the value returned or the exception raised, and the calls made into
  the module \<^verbatim>\<open>evaluate\<close>.
\<close>

definition eval_model ::
  "globals \<Rightarrow> train_env \<Rightarrow> checkpoints \<Rightarrow> string \<Rightarrow> py_object
     \<Rightarrow> (py_error + pyfloat) \<times> evaluate_call list" where
  "eval_model g env ckpts checkpoint_dir input_type =
     (case input_type of
        OtherObject \<Rightarrow> (Inl (ValueError ''Invalid input_type, required a valid InputType''), [])
      | InputTypeValue t \<Rightarrow>
          if MODEL_is_Classifier g
          then (Inr (evaluate_accuracy env checkpoint_dir (ckpts checkpoint_dir) t),
                [Accuracy checkpoint_dir t])
          else if MODEL_is_Autoencoder g
          then (Inr (evaluate_error env checkpoint_dir (ckpts checkpoint_dir) t),
                [Error checkpoint_dir t])
          else (Inl (ValueError ''Evaluate method not defined for this model type''), []))"

text \<open>
  The state of a training run: the local \<^verbatim>\<open>best_va\<close> (or \<^verbatim>\<open>best_ve\<close>), the
  checkpoint directories, the lines printed by the function, and the values that the
  calls of \<^verbatim>\<open>eval_model\<close> returned so far, oldest first.
\<close>

record train_state =
  best :: pyfloat
  ckpts :: checkpoints
  out :: "string list"
  evaluated :: "pyfloat list"

text \<open>
  The test \<^verbatim>\<open>(step > 0 and step % STEPS_PER_EPOCH == 0) or (step + 1) == MAX_STEPS\<close>.
  The remainder is taken only when \<^verbatim>\<open>step > 0\<close>, and raises for a zero divisor.
\<close>

definition epoch_end :: "globals \<Rightarrow> int \<Rightarrow> py_error + bool" where
  "epoch_end g step =
     (if step > 0
      then (if STEPS_PER_EPOCH g = 0 then Inl ZeroDivisionError
            else Inr (step mod STEPS_PER_EPOCH g = 0 \<or> step + 1 = MAX_STEPS g))
      else Inr (step + 1 = MAX_STEPS g))"

text \<open>The block \<^verbatim>\<open>if step % 10 == 0\<close>: one line of progress is printed.\<close>

definition log_progress :: "train_env \<Rightarrow> int \<Rightarrow> train_state \<Rightarrow> train_state" where
  "log_progress env step s =
     (if step mod 10 = 0 then s\<lparr>out := out s @ [progress_line env step]\<rparr> else s)"

text \<open>
  One iteration of the \<^verbatim>\<open>for\<close> loop of \<^verbatim>\<open>classifier()\<close>, after the test for a NaN
  loss. The epoch line formats \<^verbatim>\<open>int(step / STEPS_PER_EPOCH)\<close>, a division.
\<close>

definition classifier_body :: "globals \<Rightarrow> train_env \<Rightarrow> int \<Rightarrow> train_state \<Rightarrow> py_error + train_state" where
  "classifier_body g env step s =
     (let s1 = log_progress env step s in
      case epoch_end g step of
        Inl e \<Rightarrow> Inl e
      | Inr False \<Rightarrow> Inr s1
      | Inr True \<Rightarrow>
          let s2 = s1\<lparr>ckpts := (ckpts s1)(LOG_DIR g \<mapsto> step)\<rparr> in
          (case fst (eval_model g env (ckpts s2) (LOG_DIR g) (InputTypeValue validation)) of
             Inl e \<Rightarrow> Inl e
           | Inr va_value \<Rightarrow>
               if STEPS_PER_EPOCH g = 0 then Inl ZeroDivisionError
               else
                 let s3 = s2\<lparr>out := out s2 @ [epoch_line env step],
                             evaluated := evaluated s2 @ [va_value]\<rparr> in
                 if pf_gt va_value (best s3)
                 then Inr (s3\<lparr>best := va_value, ckpts := (ckpts s3)(BEST_MODEL_DIR g \<mapsto> step)\<rparr>)
                 else Inr s3))"

text \<open>The \<^verbatim>\<open>for step in range(old_gs, MAX_STEPS)\<close> loop, over the list of its steps.\<close>

fun classifier_loop :: "globals \<Rightarrow> train_env \<Rightarrow> int list \<Rightarrow> train_state \<Rightarrow> py_error + train_state" where
  "classifier_loop g env [] s = Inr s"
| "classifier_loop g env (step # rest) s =
     (if isnan (loss_value env step)
      then Inr (s\<lparr>out := out s @ [''Model diverged with loss = NaN'']\<rparr>)
      else (case classifier_body g env step s of
              Inl e \<Rightarrow> Inl e
            | Inr s' \<Rightarrow> classifier_loop g env rest s'))"

text \<open>
  Before the loop: unless \<^verbatim>\<open>ARGS.restart\<close>, the newest checkpoint of \<^verbatim>\<open>LOG_DIR\<close> is
  restored if there is one; \<^verbatim>\<open>old_gs\<close> is the value of \<^verbatim>\<open>global_step\<close> then.
\<close>

definition old_gs :: "globals \<Rightarrow> train_env \<Rightarrow> checkpoints \<Rightarrow> nat" where
  "old_gs g env c0 =
     (if \<not> ARGS_restart g
      then (case c0 (LOG_DIR g) of Some checkpoint \<Rightarrow> restored_global_step env checkpoint | None \<Rightarrow> 0)
      else 0)"

definition restore_output :: "globals \<Rightarrow> checkpoints \<Rightarrow> string list" where
  "restore_output g c0 =
     (if \<not> ARGS_restart g
      then (case c0 (LOG_DIR g) of Some checkpoint \<Rightarrow> []
            | None \<Rightarrow> [''[I] Unable to restore from checkpoint''])
      else [])"

definition train_steps :: "globals \<Rightarrow> train_env \<Rightarrow> checkpoints \<Rightarrow> int list" where
  "train_steps g env c0 = map int [old_gs g env c0..<nat (MAX_STEPS g)]"

definition classifier_init :: "globals \<Rightarrow> checkpoints \<Rightarrow> train_state" where
  "classifier_init g c0 =
     \<lparr>best = Fin 0, ckpts = c0, out = restore_output g c0, evaluated = []\<rparr>"

text \<open>\<^verbatim>\<open>classifier()\<close>: the whole run, and the value it returns, \<^verbatim>\<open>best_va\<close>.\<close>

definition classifier_run :: "globals \<Rightarrow> train_env \<Rightarrow> checkpoints \<Rightarrow> py_error + train_state" where
  "classifier_run g env c0 =
     classifier_loop g env (train_steps g env c0) (classifier_init g c0)"

definition classifier :: "globals \<Rightarrow> train_env \<Rightarrow> checkpoints \<Rightarrow> py_error + pyfloat" where
  "classifier g env c0 =
     (case classifier_run g env c0 of Inl e \<Rightarrow> Inl e | Inr s \<Rightarrow> Inr (best s))"

text \<open>The same for \<^verbatim>\<open>autoencoder()\<close>, which keeps the lowest validation error.\<close>

definition autoencoder_body :: "globals \<Rightarrow> train_env \<Rightarrow> int \<Rightarrow> train_state \<Rightarrow> py_error + train_state" where
  "autoencoder_body g env step s =
     (let s1 = log_progress env step s in
      case epoch_end g step of
        Inl e \<Rightarrow> Inl e
      | Inr False \<Rightarrow> Inr s1
      | Inr True \<Rightarrow>
          let s2 = s1\<lparr>ckpts := (ckpts s1)(LOG_DIR g \<mapsto> step)\<rparr> in
          (case fst (eval_model g env (ckpts s2) (LOG_DIR g) (InputTypeValue validation)) of
             Inl e \<Rightarrow> Inl e
           | Inr ve_value \<Rightarrow>
               if STEPS_PER_EPOCH g = 0 then Inl ZeroDivisionError
               else
                 let s3 = s2\<lparr>out := out s2 @ [epoch_line env step],
                             evaluated := evaluated s2 @ [ve_value]\<rparr> in
                 if pf_lt ve_value (best s3)
                 then Inr (s3\<lparr>best := ve_value, ckpts := (ckpts s3)(BEST_MODEL_DIR g \<mapsto> step)\<rparr>)
                 else Inr s3))"

fun autoencoder_loop :: "globals \<Rightarrow> train_env \<Rightarrow> int list \<Rightarrow> train_state \<Rightarrow> py_error + train_state" where
  "autoencoder_loop g env [] s = Inr s"
| "autoencoder_loop g env (step # rest) s =
     (if isnan (loss_value env step)
      then Inr (s\<lparr>out := out s @ [''Model diverged with loss = NaN'']\<rparr>)
      else (case autoencoder_body g env step s of
              Inl e \<Rightarrow> Inl e
            | Inr s' \<Rightarrow> autoencoder_loop g env rest s'))"

definition autoencoder_init :: "globals \<Rightarrow> checkpoints \<Rightarrow> train_state" where
  "autoencoder_init g c0 =
     \<lparr>best = PInf, ckpts = c0, out = restore_output g c0, evaluated = []\<rparr>"

definition autoencoder_run :: "globals \<Rightarrow> train_env \<Rightarrow> checkpoints \<Rightarrow> py_error + train_state" where
  "autoencoder_run g env c0 =
     autoencoder_loop g env (train_steps g env c0) (autoencoder_init g c0)"

definition autoencoder :: "globals \<Rightarrow> train_env \<Rightarrow> checkpoints \<Rightarrow> py_error + pyfloat" where
  "autoencoder g env c0 =
     (case autoencoder_run g env c0 of Inl e \<Rightarrow> Inl e | Inr s \<Rightarrow> Inr (best s))"


definition train_fn :: "globals \<Rightarrow> train_env \<Rightarrow> checkpoints \<Rightarrow> py_error + pyfloat" where
  "train_fn g env c0 =
     (if MODEL_is_Classifier g then classifier g env c0
      else if MODEL_is_Autoencoder g then autoencoder g env c0
      else Inl (ValueError ''train method not defined for this model type''))"

subsection \<open>The main block\<close>











section \<open>Notions used to state the properties\<close>

text \<open>
  The sum and the arithmetic mean of a list of floats, as mathematics has them (the
  special values absorb as in IEEE 754); the mean of no value is undefined.
\<close>

definition pf_sum :: "pyfloat list \<Rightarrow> pyfloat" where
  "pf_sum xs = foldr pf_add xs (Fin 0)"

definition arithmetic_mean :: "pyfloat list \<Rightarrow> pyfloat option" where
  "arithmetic_mean xs =
     (if xs = [] then None
      else Some (case pf_sum xs of Fin s \<Rightarrow> Fin (s / real (length xs)) | x \<Rightarrow> x))"

text \<open>The last metric of a list that bears a given name.\<close>

definition last_named :: "string \<Rightarrow> 't metric list \<Rightarrow> 't metric" where
  "last_named n ms = last (filter (\<lambda>metric. name metric = n) ms)"

text \<open>
  \<open>b\<close> is a best value among the start value \<open>b0\<close> and the observed values \<open>vs\<close>: it is
  one of them, and none of them is better. With \<open>pf_gt\<close> for "better" this is the
  maximum, with \<open>pf_lt\<close> the minimum (a NaN is never better than anything).
\<close>

definition running_best ::
  "(pyfloat \<Rightarrow> pyfloat \<Rightarrow> bool) \<Rightarrow> pyfloat \<Rightarrow> pyfloat list \<Rightarrow> pyfloat \<Rightarrow> bool" where
  "running_best better b0 vs b \<longleftrightarrow> b \<in> set (b0 # vs) \<and> (\<forall>v\<in>set (b0 # vs). \<not> better v b)"

section \<open>Concrete evaluators and runs\<close>

text \<open>
  A dataset with \<open>n\<close> examples in every split whose \<^verbatim>\<open>inputs\<close> yields the targets \<open>ts\<close>, a
  model with one prediction, a metric, and a framework in which the checkpoint
  directory \<^verbatim>\<open>log\<close> holds a checkpoint and the \<open>i\<close>-th batch evaluates to \<open>i + 1\<close>.
\<close>

definition ex_dataset :: "nat \<Rightarrow> string list \<Rightarrow> (string, unit) Dataset" where
  "ex_dataset n ts =
     \<lparr>inputs = (\<lambda>t b a. (''images'', ts)), num_classes = 10,
      num_examples = (\<lambda>t. n), dataset_name = ''D''\<rparr>"

definition ex_model :: "string Model" where
  "ex_model = \<lparr>get = (\<lambda>i c p l. (''is_training'', [''logits''])), model_name = ''M''\<rparr>"

definition ex_metric :: "string \<Rightarrow> int \<Rightarrow> bool \<Rightarrow> string metric" where
  "ex_metric nm sg avg =
     \<lparr>fn = (\<lambda>p t. nm), name = nm, positive_trend_sign = sg,
      model_selection = True, average = avg\<rparr>"

definition ex_evaluator :: "nat \<Rightarrow> string list \<Rightarrow> string metric list \<Rightarrow> (string, unit) Evaluator" where
  "ex_evaluator n ts ms =
     dataset_setter (model_setter (init ms) (Some ex_model)) (Some (ex_dataset n ts))"

definition ex_tf :: "bool \<Rightarrow> string framework" where
  "ex_tf stop =
     \<lparr>get_checkpoint_state =
        (\<lambda>p. if p = ''log'' then Some \<lparr>model_checkpoint_path = ''log/model.ckpt-7''\<rparr> else None),
      sess_run = (\<lambda>p op i. Fin (real i + 1)),
      should_stop = (\<lambda>i. stop),
      join_reraises = False\<rparr>"

definition ex_metrics :: "string metric list" where
  "ex_metrics = [ex_metric ''accuracy'' 1 True, ex_metric ''total'' 1 False]"

text \<open>
  A run of the script: three training examples in batches of three, four epochs, so
  that \<^verbatim>\<open>STEPS_PER_EPOCH\<close> is 1 and \<^verbatim>\<open>MAX_STEPS\<close> is 4. The loss is NaN at step
  \<open>nan_at\<close> only, and the evaluation of a checkpoint depends on its label alone.
\<close>

definition ex_globals :: "bool \<Rightarrow> bool \<Rightarrow> globals" where
  "ex_globals cls ae =
     \<lparr>ARGS_batch_size = 3, ARGS_epochs = 4, ARGS_restart = True, ARGS_model = ''LeNet'',
      NAME = ''run'', MODEL_is_Classifier = cls, MODEL_is_Autoencoder = ae,
      DATASET_num_examples_train = 3, CURRENT_DIR = ''/bench''\<rparr>"

definition ex_values :: "int option \<Rightarrow> pyfloat" where
  "ex_values c =
     (if c = Some 1 then Fin (1 / 2) else if c = Some 2 then Fin (3 / 4) else Fin (1 / 4))"

text \<open>Paths compared as they are written: \<open>p\<close> is \<open>d\<close> or starts with \<open>d\<close> and a slash.\<close>

definition ex_inside :: "string \<Rightarrow> string \<Rightarrow> bool" where
  "ex_inside p d \<longleftrightarrow> p = d \<or> take (Suc (length d)) p = d @ ''/''"

definition ex_env :: "int \<Rightarrow> (int option \<Rightarrow> pyfloat) \<Rightarrow> train_env" where
  "ex_env nan_at values =
     \<lparr>restored_global_step = (\<lambda>c. nat c + 1),
      loss_value = (\<lambda>step. if step = nan_at then NaN else Fin 1),
      evaluate_accuracy = (\<lambda>dir c t. values c),
      evaluate_error = (\<lambda>dir c t. values c),
      progress_line = (\<lambda>step. ''progress''),
      epoch_line = (\<lambda>step. ''epoch''),
      now = (\<lambda>i. if i = 0 then ''monday'' else ''tuesday''),
      str_float = (\<lambda>v. if v = Fin (3 / 4) then ''0.75'' else ''0.25''),
      inside = ex_inside\<rparr>"


definition ex_globals_resumed :: globals where
  "ex_globals_resumed = (ex_globals False True)\<lparr>ARGS_restart := False\<rparr>"

definition ex_finished :: checkpoints where
  "ex_finished = [''/bench/log/LeNet/run'' \<mapsto> 3]"

section \<open>Properties of the evaluator\<close>

lemmas ex_eval_defs =
  ex_dataset_def ex_model_def ex_metric_def ex_evaluator_def ex_tf_def init_def
  model_setter_def dataset_setter_def model_def dataset_def

lemmas eval_unfold =
  eval_def checkpoint_found_def eval_try_def py_ceil_div_def eval_loop.simps
  eval_finish_def build_metric_fn_def

subsection \<open>Float sums\<close>

lemma pf_add_assoc: "pf_add (pf_add a b) c = pf_add a (pf_add b c)"
  by (cases a; cases b; cases c) simp_all

lemma pf_add_zero_left: "pf_add (Fin 0) x = x"
  by (cases x) simp_all

lemma foldl_pf_add: "foldl pf_add s xs = pf_add s (pf_sum xs)"
proof (induction xs arbitrary: s)
  case Nil
  show ?case by (cases s) (simp_all add: pf_sum_def)
next
  case (Cons x xs)
  have "foldl pf_add s (x # xs) = pf_add (pf_add s x) (pf_sum xs)"
    using Cons.IH by simp
  also have "\<dots> = pf_add s (pf_sum (x # xs))"
    by (simp add: pf_add_assoc pf_sum_def)
  finally show ?case .
qed

lemma pf_sum_Fin: "pf_sum (map Fin rs) = Fin (sum_list rs)"
  by (induction rs) (simp_all add: pf_sum_def)

lemma pf_div_nat_pos:
  "0 < n \<Longrightarrow> pf_div_nat x n = Inr (case x of Fin s \<Rightarrow> Fin (s / real n) | y \<Rightarrow> y)"
  by (cases n; cases x) simp_all

lemma py_ceil_div_pos:
  assumes "0 < b" "0 < a" "py_ceil_div a b = Inr n"
  shows "0 < n"
proof -
  have "0 < real_of_int a / real_of_int b" using assms by simp
  then have "0 < \<lceil>real_of_int a / real_of_int b\<rceil>" by linarith
  moreover have "n = \<lceil>real_of_int a / real_of_int b\<rceil>"
    using assms by (simp add: py_ceil_div_def)
  ultimately show ?thesis by simp
qed

subsection \<open>The batch loop\<close>

lemma eval_loop_no_stop:
  "(\<And>i. step \<le> i \<Longrightarrow> int i < num_iter \<Longrightarrow> \<not> stop i) \<Longrightarrow>
   eval_loop stop run num_iter step s =
     (max step (nat num_iter), foldl pf_add s (map run [step..<nat num_iter]))"
proof (induction stop run num_iter step s rule: eval_loop.induct)
  case (1 stop run num_iter step s)
  show ?case
  proof (cases "int step < num_iter")
    case True
    then have ns: "\<not> stop step" using "1.prems" by simp
    have lt: "step < nat num_iter" using True by linarith
    have ih: "eval_loop stop run num_iter (step + 1) (pf_add s (run step)) =
        (max (step + 1) (nat num_iter),
         foldl pf_add (pf_add s (run step)) (map run [step + 1..<nat num_iter]))"
      using "1.IH" True ns "1.prems" by simp
    have "[step..<nat num_iter] = step # [step + 1..<nat num_iter]"
      using lt by (simp add: upt_conv_Cons)
    then show ?thesis
      using True ns lt ih by (subst eval_loop.simps) (simp add: max_def)
  next
    case False
    then have "nat num_iter \<le> step" by linarith
    then show ?thesis using False by (subst eval_loop.simps) (simp add: max_def)
  qed
qed

lemma eval_loop_start:
  "(\<And>i. int i < num_iter \<Longrightarrow> \<not> stop i) \<Longrightarrow>
   eval_loop stop run num_iter 0 (Fin 0) = (nat num_iter, pf_sum (map run [0..<nat num_iter]))"
  using eval_loop_no_stop [of 0 num_iter stop run "Fin 0"]
  by (simp add: foldl_pf_add pf_add_zero_left)

lemma eval_loop_step_mono: "step \<le> fst (eval_loop stop run num_iter step s)"
proof (induction stop run num_iter step s rule: eval_loop.induct)
  case (1 stop run num_iter step s)
  show ?case
  proof (cases "int step < num_iter \<and> \<not> stop step")
    case True
    then have "step + 1 \<le> fst (eval_loop stop run num_iter (step + 1) (pf_add s (run step)))"
      using "1.IH" by simp
    then show ?thesis using True by (subst eval_loop.simps) simp
  next
    case False
    then show ?thesis by (subst eval_loop.simps) auto
  qed
qed

lemma eval_loop_first_batch:
  assumes "1 \<le> num_iter" "\<not> stop 0"
  shows "1 \<le> fst (eval_loop stop run num_iter 0 s)"
proof -
  have "eval_loop stop run num_iter 0 s = eval_loop stop run num_iter (0 + 1) (pf_add s (run 0))"
    using assms by (subst eval_loop.simps) simp
  then show ?thesis
    using eval_loop_step_mono [of "0 + 1" stop run num_iter "pf_add s (run 0)"] by simp
qed

lemma eval_loop_none: "num_iter \<le> 0 \<Longrightarrow> eval_loop stop run num_iter 0 s = (0, s)"
  by (subst eval_loop.simps) simp

subsection \<open>The paths through \<^verbatim>\<open>eval\<close>\<close>

lemma eval_reached:
  assumes "model self = Some md" "dataset self = Some ds"
    and "inputs ds input_type batch_size aug = (inps, targets)"
    and "get md inps (num_classes ds) False (Fin 0) = (x, predictions)"
    and "length predictions = length targets"
    and "checkpoint_found (get_checkpoint_state tf checkpoint_path) = Some path"
    and "eval_try (should_stop tf) (sess_run tf path (build_metric_fn metric predictions targets))
           (num_examples ds input_type) batch_size (average metric) = (n, r)"
  shows "eval self tf metric checkpoint_path input_type batch_size aug =
           \<lparr>result = eval_finish (join_reraises tf) r, printed = [], restored = Some path,
            batches = n, reported = (case r of Inl exc \<Rightarrow> Some exc | Inr _ \<Rightarrow> None)\<rparr>"
  using assms by (simp add: eval_def model_def dataset_def)

lemma eval_try_empty:
  "eval_try stop run 0 batch_size True = (0, Inl ZeroDivisionError)"
  by (simp add: eval_try_def py_ceil_div_def eval_loop_none)

lemma eval_try_first_batch:
  assumes "1 \<le> n_examples" "1 \<le> batch_size" "\<not> stop 0"
  shows "\<exists>k v. 1 \<le> k \<and> eval_try stop run n_examples batch_size avg = (k, Inr v)"
proof -
  obtain num_iter where c: "py_ceil_div (int n_examples) batch_size = Inr num_iter"
    using assms(2) by (simp add: py_ceil_div_def)
  have "0 < num_iter"
    using py_ceil_div_pos [OF _ _ c] assms by simp
  then have k: "1 \<le> fst (eval_loop stop run num_iter 0 (Fin 0))"
    using eval_loop_first_batch assms(3) by simp
  obtain k s where l: "eval_loop stop run num_iter 0 (Fin 0) = (k, s)"
    by (cases "eval_loop stop run num_iter 0 (Fin 0)")
  have "0 < k" using k l by simp
  then have "eval_try stop run n_examples batch_size avg =
      (k, Inr (if avg then (case s of Fin a \<Rightarrow> Fin (a / real k) | y \<Rightarrow> y) else s))"
    using c l by (simp add: eval_try_def pf_div_nat_pos)
  then show ?thesis using \<open>0 < k\<close> by auto
qed

text \<open>
  Claim C1, as amended. With a positive batch size, a checkpoint found, as many
  predictions as targets and a coordinator that does not ask to stop, \<^verbatim>\<open>eval\<close> runs
  exactly \<open>num_iter = ceil(num_examples / batch_size)\<close> batches; it returns the sum of
  the batch values when \<^verbatim>\<open>metric["average"]\<close> is false, and their arithmetic mean when
  it is true and the split has at least one example.
\<close>

theorem eval_runs_num_iter_batches:
  assumes "0 < batch_size"
    and "model self = Some md" and "dataset self = Some ds"
    and "inputs ds input_type batch_size aug = (inps, targets)"
    and "get md inps (num_classes ds) False (Fin 0) = (x, predictions)"
    and "length predictions = length targets"
    and "checkpoint_found (get_checkpoint_state tf checkpoint_path) = Some path"
    and "py_ceil_div (int (num_examples ds input_type)) batch_size = Inr num_iter"
    and "\<forall>i. int i < num_iter \<longrightarrow> \<not> should_stop tf i"
    and "average metric \<longrightarrow> 0 < num_examples ds input_type"
  shows "batches (eval self tf metric checkpoint_path input_type batch_size aug) = nat num_iter \<and>
         result (eval self tf metric checkpoint_path input_type batch_size aug) =
           Inr (if average metric
                then arithmetic_mean
                       (map (sess_run tf path (build_metric_fn metric predictions targets))
                          [0..<nat num_iter])
                else Some (pf_sum
                       (map (sess_run tf path (build_metric_fn metric predictions targets))
                          [0..<nat num_iter])))"
proof -
  let ?run = "sess_run tf path (build_metric_fn metric predictions targets)"
  let ?vs = "map ?run [0..<nat num_iter]"
  have loop: "eval_loop (should_stop tf) ?run num_iter 0 (Fin 0) = (nat num_iter, pf_sum ?vs)"
    using assms(9) by (intro eval_loop_start) simp
  have pos: "average metric \<Longrightarrow> 0 < nat num_iter"
    using py_ceil_div_pos [OF assms(1) _ assms(8)] assms(10) by simp
  have tr: "eval_try (should_stop tf) ?run (num_examples ds input_type) batch_size (average metric)
      = (nat num_iter, Inr (if average metric
                            then (case pf_sum ?vs of Fin s \<Rightarrow> Fin (s / real (nat num_iter)) | y \<Rightarrow> y)
                            else pf_sum ?vs))"
    using assms(8) loop pos by (simp add: eval_try_def pf_div_nat_pos)
  have mean: "average metric \<Longrightarrow> arithmetic_mean ?vs =
      Some (case pf_sum ?vs of Fin s \<Rightarrow> Fin (s / real (nat num_iter)) | y \<Rightarrow> y)"
    using pos by (simp add: arithmetic_mean_def split: pyfloat.splits)
  show ?thesis
    using eval_reached [OF assms(2-7) tr] mean by (simp add: eval_finish_def)
qed

theorem eval_runs_num_iter_batches_witness:
  "batches (eval (ex_evaluator 5 [''labels''] []) (ex_tf False) (ex_metric ''accuracy'' 1 True)
              ''log'' test 2 None) = 3 \<and>
   result (eval (ex_evaluator 5 [''labels''] []) (ex_tf False) (ex_metric ''accuracy'' 1 True)
              ''log'' test 2 None) = Inr (Some (Fin 2)) \<and>
   result (eval (ex_evaluator 5 [''labels''] []) (ex_tf False) (ex_metric ''accuracy'' 1 False)
              ''log'' test 2 None) = Inr (Some (Fin 6))"
  using
    eval_runs_num_iter_batches [where batch_size = 2 and self = "ex_evaluator 5 [''labels''] []"
      and md = ex_model and ds = "ex_dataset 5 [''labels'']" and input_type = test and aug = None
      and inps = "''images''" and targets = "[''labels'']" and x = "''is_training''"
      and predictions = "[''logits'']" and tf = "ex_tf False" and checkpoint_path = "''log''"
      and path = "''log/model.ckpt-7''" and num_iter = 3
      and metric = "ex_metric ''accuracy'' 1 True"]
    eval_runs_num_iter_batches [where batch_size = 2 and self = "ex_evaluator 5 [''labels''] []"
      and md = ex_model and ds = "ex_dataset 5 [''labels'']" and input_type = test and aug = None
      and inps = "''images''" and targets = "[''labels'']" and x = "''is_training''"
      and predictions = "[''logits'']" and tf = "ex_tf False" and checkpoint_path = "''log''"
      and path = "''log/model.ckpt-7''" and num_iter = 3
      and metric = "ex_metric ''accuracy'' 1 False"]
  by (simp add: ex_eval_defs checkpoint_found_def py_ceil_div_def arithmetic_mean_def pf_sum_def
      build_metric_fn_def upt_rec)

text \<open>
  The claim as stated fails on a split without examples: no batch runs, the average
  divides by \<^verbatim>\<open>step == 0\<close>, and no value is returned.
\<close>

theorem eval_mean_counterexample:
  "(0::int) < 1 \<and>
   checkpoint_found (get_checkpoint_state (ex_tf False) ''log'') = Some ''log/model.ckpt-7'' \<and>
   py_ceil_div (int (num_examples (ex_dataset 0 [''labels'']) test)) 1 = Inr 0 \<and>
   average (ex_metric ''accuracy'' 1 True) \<and>
   batches (eval (ex_evaluator 0 [''labels''] []) (ex_tf False) (ex_metric ''accuracy'' 1 True)
              ''log'' test 1 None) = 0 \<and>
   result (eval (ex_evaluator 0 [''labels''] []) (ex_tf False) (ex_metric ''accuracy'' 1 True)
              ''log'' test 1 None) = Inl UnboundLocalError"
  by (simp add: ex_eval_defs eval_unfold)

text \<open>
  Claim C2, as amended. When the predictions match the targets in number and no
  checkpoint is found in \<^verbatim>\<open>checkpoint_path\<close>, \<^verbatim>\<open>eval\<close> restores nothing, runs no batch,
  prints one line and returns positive infinity when \<^verbatim>\<open>positive_trend_sign\<close> is
  negative, negative infinity otherwise.
\<close>

theorem eval_no_checkpoint_sentinel:
  assumes "model self = Some md" and "dataset self = Some ds"
    and "inputs ds input_type batch_size aug = (inps, targets)"
    and "get md inps (num_classes ds) False (Fin 0) = (x, predictions)"
    and "length predictions = length targets"
    and "checkpoint_found (get_checkpoint_state tf checkpoint_path) = None"
  shows "eval self tf metric checkpoint_path input_type batch_size aug =
           \<lparr>result = Inr (Some (if positive_trend_sign metric < 0 then PInf else NInf)),
            printed = [''[!] No checkpoint file found''],
            restored = None, batches = 0, reported = None\<rparr>"
  using assms by (simp add: eval_def model_def dataset_def copysign1_def)

theorem eval_no_checkpoint_sentinel_witness:
  "eval (ex_evaluator 5 [''labels''] []) (ex_tf False) (ex_metric ''error'' (- 1) True) ''nowhere'' test 2 None
     = \<lparr>result = Inr (Some PInf), printed = [''[!] No checkpoint file found''],
        restored = None, batches = 0, reported = None\<rparr> \<and>
   eval (ex_evaluator 5 [''labels''] []) (ex_tf False) (ex_metric ''accuracy'' 1 True) ''nowhere'' test 2 None
     = \<lparr>result = Inr (Some NInf), printed = [''[!] No checkpoint file found''],
        restored = None, batches = 0, reported = None\<rparr>"
  using
    eval_no_checkpoint_sentinel [where self = "ex_evaluator 5 [''labels''] []" and md = ex_model
      and ds = "ex_dataset 5 [''labels'']" and input_type = test and batch_size = 2 and aug = None
      and inps = "''images''" and targets = "[''labels'']" and x = "''is_training''"
      and predictions = "[''logits'']" and tf = "ex_tf False" and checkpoint_path = "''nowhere''"
      and metric = "ex_metric ''error'' (- 1) True"]
    eval_no_checkpoint_sentinel [where self = "ex_evaluator 5 [''labels''] []" and md = ex_model
      and ds = "ex_dataset 5 [''labels'']" and input_type = test and batch_size = 2 and aug = None
      and inps = "''images''" and targets = "[''labels'']" and x = "''is_training''"
      and predictions = "[''logits'']" and tf = "ex_tf False" and checkpoint_path = "''nowhere''"
      and metric = "ex_metric ''accuracy'' 1 True"]
  by (simp add: ex_eval_defs checkpoint_found_def)

text \<open>
  The claim as stated fails when, in addition, the model gives one prediction for two
  targets: \<^verbatim>\<open>eval\<close> returns \<^verbatim>\<open>None\<close> before it looks for a checkpoint.
\<close>

theorem eval_no_checkpoint_counterexample:
  "checkpoint_found (get_checkpoint_state (ex_tf False) ''nowhere'') = None \<and>
   result (eval (ex_evaluator 5 [''labels'', ''labels''] []) (ex_tf False) (ex_metric ''accuracy'' 1 True)
             ''nowhere'' test 2 None) = Inr None"
  by (simp add: ex_eval_defs eval_unfold)

text \<open>
  Claim C4. When the model gives a number of predictions that differs from the number
  of targets of the dataset, \<^verbatim>\<open>eval\<close> prints the message and returns \<^verbatim>\<open>None\<close>; no
  checkpoint is restored and no batch is run.
\<close>

theorem eval_cardinality_mismatch:
  assumes "model self = Some md" and "dataset self = Some ds"
    and "inputs ds input_type batch_size aug = (inps, targets)"
    and "get md inps (num_classes ds) False (Fin 0) = (x, predictions)"
    and "length predictions \<noteq> length targets"
  shows "eval self tf metric checkpoint_path input_type batch_size aug =
           \<lparr>result = Inr None,
            printed = [cardinality_message (model_name md) (dataset_name ds)
                         (length predictions) (length targets)],
            restored = None, batches = 0, reported = None\<rparr>"
  using assms by (simp add: eval_def model_def dataset_def)

theorem eval_cardinality_mismatch_witness:
  "eval (ex_evaluator 5 [''labels'', ''labels''] []) (ex_tf False) (ex_metric ''accuracy'' 1 True) ''log'' test 2 None
     = \<lparr>result = Inr None,
        printed = [''M.get 2nd return value and D.inputs 2nd return value must have ''
                   @ ''the same cardinality but got: 1 vs 2''],
        restored = None, batches = 0, reported = None\<rparr>"
  using
    eval_cardinality_mismatch [where self = "ex_evaluator 5 [''labels'', ''labels''] []" and md = ex_model
      and ds = "ex_dataset 5 [''labels'', ''labels'']" and input_type = test and batch_size = 2 and aug = None
      and inps = "''images''" and targets = "[''labels'', ''labels'']" and x = "''is_training''"
      and predictions = "[''logits'']" and tf = "ex_tf False" and checkpoint_path = "''log''"
      and metric = "ex_metric ''accuracy'' 1 True"]
  by (simp add: ex_eval_defs cardinality_message_def str_nat.simps digit_char_def
      numeral_2_eq_2)

text \<open>
  Claim C8, as amended. Once \<^verbatim>\<open>eval\<close> has restored a checkpoint: on a split without
  examples a metric with \<^verbatim>\<open>average\<close> true divides by zero, the handler hands the
  exception to the coordinator, and \<^verbatim>\<open>eval\<close> fails, at the final \<^verbatim>\<open>return\<close> with the
  unassigned \<^verbatim>\<open>avg_metric_value\<close> unless \<^verbatim>\<open>coord.join\<close> raises the exception again.
  With at least one example, a batch size of at least one and a coordinator that does
  not ask to stop before the first batch, at least one batch runs, no exception
  reaches the handler and a value is returned.
\<close>

theorem eval_total_when_a_batch_runs:
  assumes "model self = Some md" and "dataset self = Some ds"
    and "inputs ds input_type batch_size aug = (inps, targets)"
    and "get md inps (num_classes ds) False (Fin 0) = (x, predictions)"
    and "length predictions = length targets"
    and "checkpoint_found (get_checkpoint_state tf checkpoint_path) = Some path"
  shows "(num_examples ds input_type = 0 \<and> average metric \<longrightarrow>
            batches (eval self tf metric checkpoint_path input_type batch_size aug) = 0 \<and>
            reported (eval self tf metric checkpoint_path input_type batch_size aug)
              = Some ZeroDivisionError \<and>
            result (eval self tf metric checkpoint_path input_type batch_size aug)
              = Inl (if join_reraises tf then ZeroDivisionError else UnboundLocalError)) \<and>
         (1 \<le> num_examples ds input_type \<and> 1 \<le> batch_size \<and> \<not> should_stop tf 0 \<longrightarrow>
            1 \<le> batches (eval self tf metric checkpoint_path input_type batch_size aug) \<and>
            reported (eval self tf metric checkpoint_path input_type batch_size aug) = None \<and>
            (\<exists>v. result (eval self tf metric checkpoint_path input_type batch_size aug)
                   = Inr (Some v)))"
proof (intro conjI impI)
  let ?run = "sess_run tf path (build_metric_fn metric predictions targets)"
  let ?out = "eval self tf metric checkpoint_path input_type batch_size aug"
  {
    assume e: "num_examples ds input_type = 0 \<and> average metric"
    have tr: "eval_try (should_stop tf) ?run (num_examples ds input_type) batch_size
                (average metric) = (0, Inl ZeroDivisionError)"
      using e eval_try_empty by simp
    note out = eval_reached [OF assms tr]
    show "batches ?out = 0" using out by simp
    show "reported ?out = Some ZeroDivisionError" using out by simp
    show "result ?out = Inl (if join_reraises tf then ZeroDivisionError else UnboundLocalError)"
      using out by (simp add: eval_finish_def)
  }
  {
    assume p: "1 \<le> num_examples ds input_type \<and> 1 \<le> batch_size \<and> \<not> should_stop tf 0"
    obtain k v where k: "1 \<le> k"
      and tr: "eval_try (should_stop tf) ?run (num_examples ds input_type) batch_size
                 (average metric) = (k, Inr v)"
      using eval_try_first_batch [of "num_examples ds input_type" batch_size "should_stop tf"] p
      by blast
    note out = eval_reached [OF assms tr]
    show "1 \<le> batches ?out" using out k by simp
    show "reported ?out = None" using out by simp
    show "\<exists>v. result ?out = Inr (Some v)" using out by (simp add: eval_finish_def)
  }
qed

theorem eval_total_when_a_batch_runs_witness:
  "result (eval (ex_evaluator 0 [''labels''] []) (ex_tf False) (ex_metric ''accuracy'' 1 True)
             ''log'' test 2 None) = Inl UnboundLocalError \<and>
   reported (eval (ex_evaluator 0 [''labels''] []) (ex_tf False) (ex_metric ''accuracy'' 1 True)
             ''log'' test 2 None) = Some ZeroDivisionError \<and>
   1 \<le> batches (eval (ex_evaluator 5 [''labels''] []) (ex_tf False) (ex_metric ''accuracy'' 1 True)
             ''log'' test 2 None) \<and>
   (\<exists>v. result (eval (ex_evaluator 5 [''labels''] []) (ex_tf False) (ex_metric ''accuracy'' 1 True)
             ''log'' test 2 None) = Inr (Some v))"
  using
    eval_total_when_a_batch_runs [where self = "ex_evaluator 0 [''labels''] []" and md = ex_model
      and ds = "ex_dataset 0 [''labels'']" and input_type = test and batch_size = 2 and aug = None
      and inps = "''images''" and targets = "[''labels'']" and x = "''is_training''"
      and predictions = "[''logits'']" and tf = "ex_tf False" and checkpoint_path = "''log''"
      and path = "''log/model.ckpt-7''" and metric = "ex_metric ''accuracy'' 1 True"]
    eval_total_when_a_batch_runs [where self = "ex_evaluator 5 [''labels''] []" and md = ex_model
      and ds = "ex_dataset 5 [''labels'']" and input_type = test and batch_size = 2 and aug = None
      and inps = "''images''" and targets = "[''labels'']" and x = "''is_training''"
      and predictions = "[''logits'']" and tf = "ex_tf False" and checkpoint_path = "''log''"
      and path = "''log/model.ckpt-7''" and metric = "ex_metric ''accuracy'' 1 True"]
  by (simp add: ex_eval_defs checkpoint_found_def)

text \<open>
  The claim as stated fails when the coordinator asks to stop before the first batch:
  with one example and a batch size of one the loop body never runs, and the average
  divides by zero all the same.
\<close>

theorem eval_total_counterexample:
  "1 \<le> num_examples (ex_dataset 1 [''labels'']) test \<and> (1::int) \<le> 1 \<and>
   batches (eval (ex_evaluator 1 [''labels''] []) (ex_tf True) (ex_metric ''accuracy'' 1 True)
              ''log'' test 1 None) = 0 \<and>
   reported (eval (ex_evaluator 1 [''labels''] []) (ex_tf True) (ex_metric ''accuracy'' 1 True)
              ''log'' test 1 None) = Some ZeroDivisionError \<and>
   result (eval (ex_evaluator 1 [''labels''] []) (ex_tf True) (ex_metric ''accuracy'' 1 True)
              ''log'' test 1 None) = Inl UnboundLocalError"
  by (simp add: ex_eval_defs eval_unfold)

text \<open>
  Claim C9. A new evaluator has neither model nor dataset; each setter changes what its
  own getter returns, to exactly the value given, and leaves the other property alone.
\<close>

theorem evaluator_properties_roundtrip:
  "model (init ms) = None \<and> dataset (init ms) = None \<and>
   model (model_setter self m) = m \<and> dataset (model_setter self m) = dataset self \<and>
   dataset (dataset_setter self d) = d \<and> model (dataset_setter self d) = model self"
  by (simp add: init_def model_def dataset_def model_setter_def dataset_setter_def)

subsection \<open>The dictionary of \<^verbatim>\<open>stats\<close>\<close>

lemma last_named_Cons:
  "last_named n (m # ms) = (if n \<in> name ` set ms then last_named n ms else
      if name m = n then m else last_named n ms)"
proof -
  have "n \<in> name ` set ms \<Longrightarrow> filter (\<lambda>x. name x = n) ms \<noteq> []"
    by (auto simp: filter_empty_conv)
  moreover have "n \<notin> name ` set ms \<Longrightarrow> filter (\<lambda>x. name x = n) ms = []"
    by (auto simp: filter_empty_conv)
  ultimately show ?thesis by (auto simp: last_named_def)
qed

lemma last_named_distinct:
  "distinct (map name ms) \<Longrightarrow> m \<in> set ms \<Longrightarrow> last_named (name m) ms = m"
  by (induction ms) (auto simp: last_named_Cons)

lemma dict_comprehension_returns:
  assumes "\<forall>m\<in>set ms. \<exists>v. f m = Inr v"
  shows "\<exists>d'. dict_comprehension f ms d = Inr d' \<and>
           dom d' = dom d \<union> name ` set ms \<and>
           (\<forall>n\<in>name ` set ms. \<exists>v. d' n = Some v \<and> f (last_named n ms) = Inr v) \<and>
           (\<forall>n. n \<notin> name ` set ms \<longrightarrow> d' n = d n)"
  using assms
proof (induction ms arbitrary: d)
  case Nil
  then show ?case by simp
next
  case (Cons m ms)
  obtain v where v: "f m = Inr v" using Cons.prems by auto
  have rest: "\<forall>m\<in>set ms. \<exists>v. f m = Inr v" using Cons.prems by simp
  obtain d' where d': "dict_comprehension f ms (d(name m \<mapsto> v)) = Inr d'"
    and dm: "dom d' = dom (d(name m \<mapsto> v)) \<union> name ` set ms"
    and val: "\<forall>n\<in>name ` set ms. \<exists>v. d' n = Some v \<and> f (last_named n ms) = Inr v"
    and old: "\<forall>n. n \<notin> name ` set ms \<longrightarrow> d' n = (d(name m \<mapsto> v)) n"
    using Cons.IH [OF rest, of "d(name m \<mapsto> v)"] by blast
  have "dict_comprehension f (m # ms) d = Inr d'" using v d' by simp
  moreover have "dom d' = dom d \<union> name ` set (m # ms)" using dm by auto
  moreover have "\<forall>n\<in>name ` set (m # ms). \<exists>w. d' n = Some w \<and> f (last_named n (m # ms)) = Inr w"
  proof
    fix n assume n: "n \<in> name ` set (m # ms)"
    show "\<exists>w. d' n = Some w \<and> f (last_named n (m # ms)) = Inr w"
    proof (cases "n \<in> name ` set ms")
      case True
      then obtain w where "d' n = Some w \<and> f (last_named n ms) = Inr w"
        using val by blast
      moreover have "last_named n (m # ms) = last_named n ms"
        using True by (simp add: last_named_Cons)
      ultimately show ?thesis by simp
    next
      case False
      then have "n = name m" using n by auto
      then show ?thesis using False old v by (simp add: last_named_Cons)
    qed
  qed
  moreover have "\<forall>n. n \<notin> name ` set (m # ms) \<longrightarrow> d' n = d n" using old by auto
  ultimately show ?case by blast
qed

text \<open>
  Claim C6, as amended. When none of the calls of \<^verbatim>\<open>eval\<close> raises, \<^verbatim>\<open>stats\<close> returns a
  dictionary with exactly the keys \<^verbatim>\<open>train\<close>, \<^verbatim>\<open>validation\<close> and \<^verbatim>\<open>test\<close>; under
  each key the names of the metrics are the keys, and a name is mapped to the result
  of \<^verbatim>\<open>eval\<close> on the last metric that bears it, for the split of the key and with the
  same \<^verbatim>\<open>checkpoint_path\<close>, \<^verbatim>\<open>batch_size\<close> and \<^verbatim>\<open>augmentation_fn\<close>. With pairwise
  distinct names every metric is mapped to its own result.
\<close>

theorem stats_maps_names_to_eval:
  assumes "\<forall>t. \<forall>m\<in>set (metrics self). \<exists>v.
             result (eval self tf m checkpoint_path t batch_size aug) = Inr v"
  shows "\<exists>D. stats self tf checkpoint_path batch_size aug =
                Inr [''train'' \<mapsto> D train, ''validation'' \<mapsto> D validation, ''test'' \<mapsto> D test] \<and>
              (\<forall>t. dom (D t) = name ` set (metrics self) \<and>
                   (\<forall>n\<in>name ` set (metrics self). \<exists>v. D t n = Some v \<and>
                      result (eval self tf (last_named n (metrics self)) checkpoint_path t
                                batch_size aug) = Inr v) \<and>
                   (distinct (map name (metrics self)) \<longrightarrow>
                      (\<forall>m\<in>set (metrics self). \<exists>v. D t (name m) = Some v \<and>
                         result (eval self tf m checkpoint_path t batch_size aug) = Inr v)))"
proof -
  let ?f = "\<lambda>t m. result (eval self tf m checkpoint_path t batch_size aug)"
  let ?ms = "metrics self"
  have each: "\<exists>d. dict_comprehension (?f t) ?ms Map.empty = Inr d \<and>
                 dom d = name ` set ?ms \<and>
                 (\<forall>n\<in>name ` set ?ms. \<exists>v. d n = Some v \<and> ?f t (last_named n ?ms) = Inr v)" for t
    using dict_comprehension_returns [of ?ms "?f t" Map.empty] assms by auto
  then obtain D where D: "\<And>t. dict_comprehension (?f t) ?ms Map.empty = Inr (D t) \<and>
                 dom (D t) = name ` set ?ms \<and>
                 (\<forall>n\<in>name ` set ?ms. \<exists>v. D t n = Some v \<and> ?f t (last_named n ?ms) = Inr v)"
    by metis
  have st: "stats self tf checkpoint_path batch_size aug =
       Inr [''train'' \<mapsto> D train, ''validation'' \<mapsto> D validation, ''test'' \<mapsto> D test]"
    using D by (simp add: stats_def)
  have "\<exists>v. D t (name m) = Some v \<and> ?f t m = Inr v"
    if "distinct (map name ?ms)" "m \<in> set ?ms" for t m
    using D [of t] that last_named_distinct [of ?ms m] by force
  then show ?thesis using st D by blast
qed

theorem stats_maps_names_to_eval_witness:
  "\<exists>D. stats (ex_evaluator 5 [''labels''] ex_metrics) (ex_tf False) ''log'' 2 None =
          Inr [''train'' \<mapsto> D train, ''validation'' \<mapsto> D validation, ''test'' \<mapsto> D test] \<and>
        (\<forall>t. D t ''accuracy'' = Some (Some (Fin 2)) \<and> D t ''total'' = Some (Some (Fin 6)))"
proof -
  let ?E = "ex_evaluator 5 [''labels''] ex_metrics"
  have ev: "result (eval (ex_evaluator 5 [''labels''] M) (ex_tf False) (ex_metric nm 1 avg)
                      ''log'' t 2 None)
      = Inr (Some (if avg then Fin 2 else Fin 6))" for M nm avg t
    by (simp add: ex_eval_defs eval_unfold)
  have ms: "metrics ?E = ex_metrics"
    by (simp add: ex_evaluator_def init_def model_setter_def dataset_setter_def)
  have hyp: "\<forall>t. \<forall>m\<in>set (metrics ?E). \<exists>v.
     result (eval ?E (ex_tf False) m ''log'' t 2 None) = Inr v"
    unfolding ms using ev by (simp add: ex_metrics_def)
  have nm: "name (ex_metric nm 1 avg) = nm" for nm avg by (simp add: ex_metric_def)
  have dist: "distinct (map name (metrics ?E))"
    unfolding ms by (simp add: ex_metrics_def nm)
  from stats_maps_names_to_eval [OF hyp]
  obtain D where D:
    "stats ?E (ex_tf False) ''log'' 2 None =
       Inr [''train'' \<mapsto> D train, ''validation'' \<mapsto> D validation, ''test'' \<mapsto> D test] \<and>
     (\<forall>t. dom (D t) = name ` set (metrics ?E) \<and>
          (\<forall>n\<in>name ` set (metrics ?E). \<exists>v. D t n = Some v \<and>
             result (eval ?E (ex_tf False) (last_named n (metrics ?E)) ''log'' t 2 None) = Inr v) \<and>
          (distinct (map name (metrics ?E)) \<longrightarrow>
             (\<forall>m\<in>set (metrics ?E). \<exists>v. D t (name m) = Some v \<and>
                result (eval ?E (ex_tf False) m ''log'' t 2 None) = Inr v)))" ..
  have own: "\<forall>m\<in>set ex_metrics. \<exists>v. D t (name m) = Some v \<and>
                result (eval ?E (ex_tf False) m ''log'' t 2 None) = Inr v" for t
    using D dist unfolding ms by simp
  have "D t ''accuracy'' = Some (Some (Fin 2)) \<and> D t ''total'' = Some (Some (Fin 6))" for t
    using own [of t] by (simp add: ex_metrics_def nm ev)
  then show ?thesis using D by blast
qed

text \<open>
  The claim as stated fails in two ways. On a dataset without examples the call of
  \<^verbatim>\<open>eval\<close> for an averaging metric raises, and \<^verbatim>\<open>stats\<close> returns no dictionary. With
  two metrics of the same name the entry holds the result of the second one (the sum,
  6) and not that of the first (the mean, 2).
\<close>

theorem stats_counterexample:
  "stats (ex_evaluator 0 [''labels''] ex_metrics) (ex_tf False) ''log'' 2 None
     = Inl UnboundLocalError \<and>
   stats (ex_evaluator 5 [''labels''] [ex_metric ''m'' 1 True, ex_metric ''m'' 1 False])
      (ex_tf False) ''log'' 2 None
     = Inr [''train'' \<mapsto> [''m'' \<mapsto> Some (Fin 6)], ''validation'' \<mapsto> [''m'' \<mapsto> Some (Fin 6)],
            ''test'' \<mapsto> [''m'' \<mapsto> Some (Fin 6)]] \<and>
   result (eval (ex_evaluator 5 [''labels''] [ex_metric ''m'' 1 True, ex_metric ''m'' 1 False])
             (ex_tf False) (ex_metric ''m'' 1 True) ''log'' train 2 None) = Inr (Some (Fin 2))"
proof -
  have ev5: "result (eval (ex_evaluator 5 [''labels''] M) (ex_tf False) (ex_metric nm 1 avg)
                       ''log'' t 2 None)
      = Inr (Some (if avg then Fin 2 else Fin 6))" for M nm avg t
    by (simp add: ex_eval_defs eval_unfold)
  have ev0: "result (eval (ex_evaluator 0 [''labels''] M) (ex_tf False) (ex_metric nm 1 True)
                       ''log'' t 2 None)
      = Inl UnboundLocalError" for M nm t
    by (simp add: ex_eval_defs eval_unfold)
  have ms: "metrics (ex_evaluator n ts M) = M" for n ts M
    by (simp add: ex_evaluator_def init_def model_setter_def dataset_setter_def)
  have nm: "name (ex_metric nm 1 avg) = nm" for nm avg by (simp add: ex_metric_def)
  show ?thesis
    by (simp add: stats_def ms nm ex_metrics_def ev0 ev5)
qed

section \<open>Properties of the training script\<close>

lemmas ex_train_defs =
  ex_globals_def ex_env_def ex_values_def STEPS_PER_EPOCH_def MAX_STEPS_def LOG_DIR_def
  BEST_MODEL_DIR_def path_join_def

lemmas train_unfold =
  classifier_init_def classifier_body_def autoencoder_init_def autoencoder_body_def
  log_progress_def restore_output_def epoch_end_def eval_model_def pf_gt_def Let_def

lemma ex_steps: "train_steps (ex_globals cls ae) env c0 = [0, 1, 2, 3]"
  by (simp add: train_steps_def old_gs_def MAX_STEPS_def STEPS_PER_EPOCH_def ex_globals_def
      upt_rec)

lemma ex_classifier_run:
  "\<exists>s. classifier_run (ex_globals True False) (ex_env (- 1) ex_values) Map.empty = Inr s \<and>
       best s = Fin (3 / 4) \<and> evaluated s = [Fin (1 / 2), Fin (3 / 4), Fin (1 / 4)] \<and>
       ckpts s ''/bench/log/LeNet/run/best'' = Some 2 \<and>
       out s = [''progress'', ''epoch'', ''epoch'', ''epoch'']"
  unfolding classifier_run_def ex_steps by (simp add: train_unfold ex_train_defs)

subsection \<open>The order of floats\<close>

lemma pf_lt_irrefl: "\<not> pf_lt a a"
  by (cases a) simp_all

lemma pf_lt_not_nan: "pf_lt a b \<Longrightarrow> \<not> isnan a \<and> \<not> isnan b"
  by (cases a; cases b) simp_all

lemma pf_lt_trans: "pf_lt a b \<Longrightarrow> pf_lt b c \<Longrightarrow> pf_lt a c"
  by (cases a; cases b; cases c) simp_all

lemma pf_lt_upper: "pf_lt b a \<Longrightarrow> \<not> pf_lt b v \<Longrightarrow> \<not> pf_lt a v"
  by (cases a; cases b; cases v) simp_all

lemma pf_lt_lower: "pf_lt a b \<Longrightarrow> \<not> pf_lt v b \<Longrightarrow> \<not> pf_lt v a"
  by (cases a; cases b; cases v) simp_all

lemma pf_le_refl: "\<not> isnan a \<Longrightarrow> pf_le a a"
  by (cases a) (simp_all add: pf_le_def)

lemma pf_le_trans: "pf_le a b \<Longrightarrow> pf_le b c \<Longrightarrow> pf_le a c"
  by (cases a; cases b; cases c) (simp_all add: pf_le_def)

lemma pf_lt_le: "pf_lt a b \<Longrightarrow> pf_le a b"
  by (cases a; cases b) (simp_all add: pf_le_def)

lemma pf_le_not_nan: "pf_le a b \<Longrightarrow> \<not> isnan a \<and> \<not> isnan b"
  by (simp add: pf_le_def)

subsection \<open>Paths\<close>

lemma path_join_length:
  "b \<noteq> [] \<Longrightarrow> hd b \<noteq> CHR ''/'' \<Longrightarrow> length a < length (path_join a b)"
  by (cases b) (simp_all add: path_join_def)

lemma LOG_DIR_not_BEST: "LOG_DIR g \<noteq> BEST_MODEL_DIR g"
  using path_join_length [of "''best''" "LOG_DIR g"] by (auto simp: BEST_MODEL_DIR_def)

lemma zero_steps_per_epoch: "STEPS_PER_EPOCH g = 0 \<Longrightarrow> train_steps g env c0 = []"
  by (simp add: train_steps_def MAX_STEPS_def)

lemma eval_model_supported:
  "MODEL_is_Classifier g \<or> MODEL_is_Autoencoder g \<Longrightarrow>
   \<exists>v. fst (eval_model g env c checkpoint_dir (InputTypeValue t)) = Inr v"
  by (auto simp: eval_model_def)


lemma epoch_end_returns: "STEPS_PER_EPOCH g \<noteq> 0 \<Longrightarrow> \<exists>b. epoch_end g step = Inr b"
  by (simp add: epoch_end_def)

lemma log_progress_keeps [simp]:
  "best (log_progress env step s) = best s"
  "ckpts (log_progress env step s) = ckpts s"
  "evaluated (log_progress env step s) = evaluated s"
  by (simp_all add: log_progress_def)

subsection \<open>The loop of \<^verbatim>\<open>classifier()\<close>\<close>

lemma classifier_body_cases:
  assumes "classifier_body g env step s = Inr s'"
  shows "(epoch_end g step = Inr False \<and> best s' = best s \<and> evaluated s' = evaluated s \<and>
          ckpts s' = ckpts s) \<or>
         (epoch_end g step = Inr True \<and>
          (\<exists>va. fst (eval_model g env ((ckpts s)(LOG_DIR g \<mapsto> step)) (LOG_DIR g)
                       (InputTypeValue validation)) = Inr va \<and>
                evaluated s' = evaluated s @ [va] \<and>
                (if pf_gt va (best s)
                 then best s' = va \<and>
                      ckpts s' = (ckpts s)(LOG_DIR g \<mapsto> step, BEST_MODEL_DIR g \<mapsto> step)
                 else best s' = best s \<and> ckpts s' = (ckpts s)(LOG_DIR g \<mapsto> step))))"
proof (cases "epoch_end g step")
  case (Inl e)
  then show ?thesis using assms by (simp add: classifier_body_def Let_def)
next
  case (Inr b)
  show ?thesis
  proof (cases b)
    case False
    then show ?thesis using assms Inr by (auto simp: classifier_body_def Let_def)
  next
    case True
    let ?c = "(ckpts s)(LOG_DIR g \<mapsto> step)"
    show ?thesis
    proof (cases "fst (eval_model g env ?c (LOG_DIR g) (InputTypeValue validation))")
      case (Inl e)
      then show ?thesis using assms \<open>epoch_end g step = Inr b\<close> True
        by (simp add: classifier_body_def Let_def)
    next
      case (Inr va)
      then show ?thesis using assms \<open>epoch_end g step = Inr b\<close> True
        by (auto simp: classifier_body_def Let_def split: if_splits)
    qed
  qed
qed

lemma classifier_body_returns:
  assumes "MODEL_is_Classifier g \<or> MODEL_is_Autoencoder g" "STEPS_PER_EPOCH g \<noteq> 0"
  shows "\<exists>s'. classifier_body g env step s = Inr s'"
proof -
  obtain b where e: "epoch_end g step = Inr b"
    using epoch_end_returns [OF assms(2)] by blast
  obtain v where v: "fst (eval_model g env ((ckpts s)(LOG_DIR g \<mapsto> step)) (LOG_DIR g)
                            (InputTypeValue validation)) = Inr v"
    using eval_model_supported [OF assms(1)] by blast
  show ?thesis
    using e v assms(2) by (cases b) (simp_all add: classifier_body_def Let_def)
qed

lemma classifier_loop_returns:
  assumes "MODEL_is_Classifier g \<or> MODEL_is_Autoencoder g" "STEPS_PER_EPOCH g \<noteq> 0"
  shows "\<exists>s'. classifier_loop g env steps s = Inr s'"
proof (induction steps arbitrary: s)
  case Nil
  show ?case by simp
next
  case (Cons step rest)
  obtain s1 where "classifier_body g env step s = Inr s1"
    using classifier_body_returns [OF assms] by blast
  then show ?case using Cons.IH [of s1] by simp
qed

lemma classifier_run_returns:
  assumes "MODEL_is_Classifier g \<or> MODEL_is_Autoencoder g"
  shows "\<exists>s. classifier_run g env c0 = Inr s"
proof (cases "STEPS_PER_EPOCH g = 0")
  case True
  then show ?thesis by (simp add: classifier_run_def zero_steps_per_epoch)
next
  case False
  then show ?thesis using classifier_loop_returns [OF assms] by (simp add: classifier_run_def)
qed

lemma classifier_body_best:
  assumes "classifier_body g env step s = Inr s'"
    and "running_best pf_gt b0 (evaluated s) (best s)"
  shows "running_best pf_gt b0 (evaluated s') (best s')"
  using classifier_body_cases [OF assms(1)] assms(2)
  by (auto simp: running_best_def pf_gt_def pf_lt_irrefl split: if_splits dest: pf_lt_upper)

lemma classifier_loop_best:
  "classifier_loop g env steps s = Inr s' \<Longrightarrow>
   running_best pf_gt b0 (evaluated s) (best s) \<Longrightarrow>
   running_best pf_gt b0 (evaluated s') (best s')"
proof (induction steps arbitrary: s)
  case Nil
  then show ?case by simp
next
  case (Cons step rest)
  show ?case
  proof (cases "isnan (loss_value env step)")
    case True
    then show ?thesis using Cons.prems by auto
  next
    case False
    then obtain s1 where b: "classifier_body g env step s = Inr s1"
      and l: "classifier_loop g env rest s1 = Inr s'"
      using Cons.prems(1) by (auto split: sum.splits)
    show ?thesis
      using Cons.IH [OF l classifier_body_best [OF b Cons.prems(2)]] .
  qed
qed

lemma classifier_body_mono:
  assumes "classifier_body g env step s = Inr s'" "\<not> isnan (best s)"
  shows "pf_le (best s) (best s')"
  using classifier_body_cases [OF assms(1)] assms(2)
  by (auto simp: pf_gt_def pf_le_refl pf_lt_le split: if_splits)

lemma classifier_loop_mono:
  "classifier_loop g env steps s = Inr s' \<Longrightarrow> \<not> isnan (best s) \<Longrightarrow> pf_le (best s) (best s')"
proof (induction steps arbitrary: s)
  case Nil
  then show ?case by (simp add: pf_le_refl)
next
  case (Cons step rest)
  show ?case
  proof (cases "isnan (loss_value env step)")
    case True
    then show ?thesis using Cons.prems by (auto simp: pf_le_refl)
  next
    case False
    then obtain s1 where b: "classifier_body g env step s = Inr s1"
      and l: "classifier_loop g env rest s1 = Inr s'"
      using Cons.prems(1) by (auto split: sum.splits)
    have m: "pf_le (best s) (best s1)" using classifier_body_mono [OF b Cons.prems(2)] .
    then have "\<not> isnan (best s1)" by (simp add: pf_le_def)
    then show ?thesis using Cons.IH [OF l] m pf_le_trans by blast
  qed
qed

lemma classifier_loop_append:
  "classifier_loop g env (xs @ ys) s =
     (if \<exists>x\<in>set xs. isnan (loss_value env x) then classifier_loop g env xs s
      else (case classifier_loop g env xs s of
              Inl e \<Rightarrow> Inl e
            | Inr s1 \<Rightarrow> classifier_loop g env ys s1))"
  by (induction xs arbitrary: s) (auto split: sum.splits)

lemma classifier_loop_prefix_mono:
  assumes "classifier_loop g env (xs @ ys) s = Inr s2" "classifier_loop g env xs s = Inr s1"
    and "\<not> isnan (best s)"
  shows "pf_le (best s1) (best s2)"
proof -
  have n1: "\<not> isnan (best s1)"
    using classifier_loop_mono [OF assms(2,3)] by (simp add: pf_le_def)
  show ?thesis
  proof (cases "\<exists>x\<in>set xs. isnan (loss_value env x)")
    case True
    then have "s2 = s1" using assms(1,2) by (simp add: classifier_loop_append)
    then show ?thesis using n1 by (simp add: pf_le_refl)
  next
    case False
    then have "classifier_loop g env ys s1 = Inr s2"
      using assms(1,2) by (simp add: classifier_loop_append)
    then show ?thesis using n1 by (rule classifier_loop_mono)
  qed
qed

lemma classifier_loop_nan:
  assumes "isnan (loss_value env k)" "\<forall>j\<in>set xs. \<not> isnan (loss_value env j)"
    and "classifier_loop g env xs s = Inr s1"
  shows "classifier_loop g env (xs @ k # ys) s =
           Inr (s1\<lparr>out := out s1 @ [''Model diverged with loss = NaN'']\<rparr>)"
  using assms by (simp add: classifier_loop_append)

subsection \<open>The loop of \<^verbatim>\<open>autoencoder()\<close>\<close>

lemma autoencoder_body_cases:
  assumes "autoencoder_body g env step s = Inr s'"
  shows "(epoch_end g step = Inr False \<and> best s' = best s \<and> evaluated s' = evaluated s \<and>
          ckpts s' = ckpts s) \<or>
         (epoch_end g step = Inr True \<and>
          (\<exists>ve. fst (eval_model g env ((ckpts s)(LOG_DIR g \<mapsto> step)) (LOG_DIR g)
                       (InputTypeValue validation)) = Inr ve \<and>
                evaluated s' = evaluated s @ [ve] \<and>
                (if pf_lt ve (best s)
                 then best s' = ve \<and>
                      ckpts s' = (ckpts s)(LOG_DIR g \<mapsto> step, BEST_MODEL_DIR g \<mapsto> step)
                 else best s' = best s \<and> ckpts s' = (ckpts s)(LOG_DIR g \<mapsto> step))))"
proof (cases "epoch_end g step")
  case (Inl e)
  then show ?thesis using assms by (simp add: autoencoder_body_def Let_def)
next
  case (Inr b)
  show ?thesis
  proof (cases b)
    case False
    then show ?thesis using assms Inr by (auto simp: autoencoder_body_def Let_def)
  next
    case True
    let ?c = "(ckpts s)(LOG_DIR g \<mapsto> step)"
    show ?thesis
    proof (cases "fst (eval_model g env ?c (LOG_DIR g) (InputTypeValue validation))")
      case (Inl e)
      then show ?thesis using assms \<open>epoch_end g step = Inr b\<close> True
        by (simp add: autoencoder_body_def Let_def)
    next
      case (Inr ve)
      then show ?thesis using assms \<open>epoch_end g step = Inr b\<close> True
        by (auto simp: autoencoder_body_def Let_def split: if_splits)
    qed
  qed
qed

lemma autoencoder_body_returns:
  assumes "MODEL_is_Classifier g \<or> MODEL_is_Autoencoder g" "STEPS_PER_EPOCH g \<noteq> 0"
  shows "\<exists>s'. autoencoder_body g env step s = Inr s'"
proof -
  obtain b where e: "epoch_end g step = Inr b"
    using epoch_end_returns [OF assms(2)] by blast
  obtain v where v: "fst (eval_model g env ((ckpts s)(LOG_DIR g \<mapsto> step)) (LOG_DIR g)
                            (InputTypeValue validation)) = Inr v"
    using eval_model_supported [OF assms(1)] by blast
  show ?thesis
    using e v assms(2) by (cases b) (simp_all add: autoencoder_body_def Let_def)
qed

lemma autoencoder_loop_returns:
  assumes "MODEL_is_Classifier g \<or> MODEL_is_Autoencoder g" "STEPS_PER_EPOCH g \<noteq> 0"
  shows "\<exists>s'. autoencoder_loop g env steps s = Inr s'"
proof (induction steps arbitrary: s)
  case Nil
  show ?case by simp
next
  case (Cons step rest)
  obtain s1 where "autoencoder_body g env step s = Inr s1"
    using autoencoder_body_returns [OF assms] by blast
  then show ?case using Cons.IH [of s1] by simp
qed

lemma autoencoder_run_returns:
  assumes "MODEL_is_Classifier g \<or> MODEL_is_Autoencoder g"
  shows "\<exists>s. autoencoder_run g env c0 = Inr s"
proof (cases "STEPS_PER_EPOCH g = 0")
  case True
  then show ?thesis by (simp add: autoencoder_run_def zero_steps_per_epoch)
next
  case False
  then show ?thesis using autoencoder_loop_returns [OF assms] by (simp add: autoencoder_run_def)
qed

lemma autoencoder_body_best:
  assumes "autoencoder_body g env step s = Inr s'"
    and "running_best pf_lt b0 (evaluated s) (best s)"
  shows "running_best pf_lt b0 (evaluated s') (best s')"
  using autoencoder_body_cases [OF assms(1)] assms(2)
  by (auto simp: running_best_def pf_lt_irrefl split: if_splits dest: pf_lt_lower)

lemma autoencoder_loop_best:
  "autoencoder_loop g env steps s = Inr s' \<Longrightarrow>
   running_best pf_lt b0 (evaluated s) (best s) \<Longrightarrow>
   running_best pf_lt b0 (evaluated s') (best s')"
proof (induction steps arbitrary: s)
  case Nil
  then show ?case by simp
next
  case (Cons step rest)
  show ?case
  proof (cases "isnan (loss_value env step)")
    case True
    then show ?thesis using Cons.prems by auto
  next
    case False
    then obtain s1 where b: "autoencoder_body g env step s = Inr s1"
      and l: "autoencoder_loop g env rest s1 = Inr s'"
      using Cons.prems(1) by (auto split: sum.splits)
    show ?thesis
      using Cons.IH [OF l autoencoder_body_best [OF b Cons.prems(2)]] .
  qed
qed

lemma autoencoder_body_mono:
  assumes "autoencoder_body g env step s = Inr s'" "\<not> isnan (best s)"
  shows "pf_le (best s') (best s)"
  using autoencoder_body_cases [OF assms(1)] assms(2)
  by (auto simp: pf_le_refl pf_lt_le split: if_splits)

lemma autoencoder_loop_mono:
  "autoencoder_loop g env steps s = Inr s' \<Longrightarrow> \<not> isnan (best s) \<Longrightarrow> pf_le (best s') (best s)"
proof (induction steps arbitrary: s)
  case Nil
  then show ?case by (simp add: pf_le_refl)
next
  case (Cons step rest)
  show ?case
  proof (cases "isnan (loss_value env step)")
    case True
    then show ?thesis using Cons.prems by (auto simp: pf_le_refl)
  next
    case False
    then obtain s1 where b: "autoencoder_body g env step s = Inr s1"
      and l: "autoencoder_loop g env rest s1 = Inr s'"
      using Cons.prems(1) by (auto split: sum.splits)
    have m: "pf_le (best s1) (best s)" using autoencoder_body_mono [OF b Cons.prems(2)] .
    then have "\<not> isnan (best s1)" by (simp add: pf_le_def)
    then show ?thesis using Cons.IH [OF l] m pf_le_trans by blast
  qed
qed

lemma autoencoder_loop_append:
  "autoencoder_loop g env (xs @ ys) s =
     (if \<exists>x\<in>set xs. isnan (loss_value env x) then autoencoder_loop g env xs s
      else (case autoencoder_loop g env xs s of
              Inl e \<Rightarrow> Inl e
            | Inr s1 \<Rightarrow> autoencoder_loop g env ys s1))"
  by (induction xs arbitrary: s) (auto split: sum.splits)

lemma autoencoder_loop_prefix_mono:
  assumes "autoencoder_loop g env (xs @ ys) s = Inr s2" "autoencoder_loop g env xs s = Inr s1"
    and "\<not> isnan (best s)"
  shows "pf_le (best s2) (best s1)"
proof -
  have n1: "\<not> isnan (best s1)"
    using autoencoder_loop_mono [OF assms(2,3)] by (simp add: pf_le_def)
  show ?thesis
  proof (cases "\<exists>x\<in>set xs. isnan (loss_value env x)")
    case True
    then have "s2 = s1" using assms(1,2) by (simp add: autoencoder_loop_append)
    then show ?thesis using n1 by (simp add: pf_le_refl)
  next
    case False
    then have "autoencoder_loop g env ys s1 = Inr s2"
      using assms(1,2) by (simp add: autoencoder_loop_append)
    then show ?thesis using n1 by (rule autoencoder_loop_mono)
  qed
qed

lemma autoencoder_loop_nan:
  assumes "isnan (loss_value env k)" "\<forall>j\<in>set xs. \<not> isnan (loss_value env j)"
    and "autoencoder_loop g env xs s = Inr s1"
  shows "autoencoder_loop g env (xs @ k # ys) s =
           Inr (s1\<lparr>out := out s1 @ [''Model diverged with loss = NaN'']\<rparr>)"
  using assms by (simp add: autoencoder_loop_append)

subsection \<open>The best validation value\<close>

lemma pf_total: "\<not> isnan a \<Longrightarrow> \<not> isnan b \<Longrightarrow> \<not> pf_lt a b \<Longrightarrow> \<not> pf_lt b a \<Longrightarrow> a = b"
  by (cases a; cases b) simp_all

lemma running_best_max_attained:
  assumes "running_best pf_gt b0 vs b" "\<exists>v\<in>set vs. pf_le b0 v"
  shows "b \<in> set vs"
proof (cases "b = b0")
  case True
  obtain v where v: "v \<in> set vs" "pf_le b0 v" using assms(2) by blast
  have "\<not> pf_lt b0 v" using assms(1) v(1) True by (simp add: running_best_def pf_gt_def)
  then have "v = b0" using v(2) pf_total [of v b0] by (simp add: pf_le_def)
  then show ?thesis using v(1) True by simp
next
  case False
  then show ?thesis using assms(1) by (simp add: running_best_def)
qed

lemma running_best_min_attained:
  assumes "running_best pf_lt b0 vs b" "\<exists>v\<in>set vs. pf_le v b0"
  shows "b \<in> set vs"
proof (cases "b = b0")
  case True
  obtain v where v: "v \<in> set vs" "pf_le v b0" using assms(2) by blast
  have "\<not> pf_lt v b0" using assms(1) v(1) True by (simp add: running_best_def)
  then have "v = b0" using v(2) pf_total [of v b0] by (simp add: pf_le_def)
  then show ?thesis using v(1) True by simp
next
  case False
  then show ?thesis using assms(1) by (simp add: running_best_def)
qed

lemma running_best_is_max:
  assumes "running_best pf_gt (Fin 0) vs b"
  shows "(vs = [] \<longrightarrow> b = Fin 0) \<and>
         ((\<forall>v\<in>set vs. pf_le (Fin 0) v) \<longrightarrow> vs \<noteq> [] \<longrightarrow>
            b \<in> set vs \<and> (\<forall>v\<in>set vs. pf_le v b))"
proof (intro conjI impI)
  assume "vs = []"
  then show "b = Fin 0" using assms by (simp add: running_best_def)
next
  assume ge: "\<forall>v\<in>set vs. pf_le (Fin 0) v" and ne: "vs \<noteq> []"
  then have ex: "\<exists>v\<in>set vs. pf_le (Fin 0) v" by (cases vs) auto
  show in_vs: "b \<in> set vs" using assms ex by (rule running_best_max_attained)
  show "\<forall>v\<in>set vs. pf_le v b"
  proof
    fix v assume v: "v \<in> set vs"
    have "\<not> pf_lt b v" using assms v by (simp add: running_best_def pf_gt_def)
    moreover have "\<not> isnan v" using ge v by (auto simp: pf_le_def)
    moreover have "\<not> isnan b" using ge in_vs by (auto simp: pf_le_def)
    ultimately show "pf_le v b" by (simp add: pf_le_def)
  qed
qed

lemma running_best_is_min:
  assumes "running_best pf_lt PInf vs b" "\<not> isnan b"
  shows "(filter (\<lambda>v. \<not> isnan v) vs = [] \<longrightarrow> b = PInf) \<and>
         (filter (\<lambda>v. \<not> isnan v) vs \<noteq> [] \<longrightarrow>
            b \<in> set vs \<and> (\<forall>v\<in>set vs. \<not> isnan v \<longrightarrow> pf_le b v))"
proof (intro conjI impI ballI)
  assume "filter (\<lambda>v. \<not> isnan v) vs = []"
  then have "\<forall>v\<in>set vs. isnan v" by (simp add: filter_empty_conv)
  then have "b \<notin> set vs" using assms(2) by auto
  then show "b = PInf" using assms(1) by (auto simp: running_best_def)
next
  assume "filter (\<lambda>v. \<not> isnan v) vs \<noteq> []"
  then obtain w where w: "w \<in> set vs" "\<not> isnan w"
    by (auto simp: filter_empty_conv)
  have "pf_le w PInf" using w(2) by (cases w) (simp_all add: pf_le_def)
  then have ex: "\<exists>v\<in>set vs. pf_le v PInf" using w(1) by blast
  show "b \<in> set vs" using assms(1) ex by (rule running_best_min_attained)
next
  fix v assume v: "v \<in> set vs" "\<not> isnan v"
  have "\<not> pf_lt v b" using assms(1) v(1) by (simp add: running_best_def)
  then show "pf_le b v" using v(2) assms(2) by (simp add: pf_le_def)
qed

lemma classifier_returned:
  assumes "classifier_run g env c0 = Inr s"
  shows "classifier g env c0 = Inr (best s) \<and>
         running_best pf_gt (Fin 0) (evaluated s) (best s) \<and>
         (evaluated s = [] \<longrightarrow> best s = Fin 0) \<and>
         ((\<forall>v\<in>set (evaluated s). pf_le (Fin 0) v) \<longrightarrow> evaluated s \<noteq> [] \<longrightarrow>
            best s \<in> set (evaluated s) \<and> (\<forall>v\<in>set (evaluated s). pf_le v (best s))) \<and>
         (\<forall>xs ys s1. train_steps g env c0 = xs @ ys \<longrightarrow>
            classifier_loop g env xs (classifier_init g c0) = Inr s1 \<longrightarrow>
            pf_le (best s1) (best s))"
proof -
  have l: "classifier_loop g env (train_steps g env c0) (classifier_init g c0) = Inr s"
    using assms by (simp add: classifier_run_def)
  have init: "running_best pf_gt (Fin 0) (evaluated (classifier_init g c0))
                (best (classifier_init g c0))"
    by (simp add: running_best_def classifier_init_def pf_gt_def)
  have rb: "running_best pf_gt (Fin 0) (evaluated s) (best s)"
    using l init by (rule classifier_loop_best)
  have nn: "\<not> isnan (best (classifier_init g c0))" by (simp add: classifier_init_def)
  have c: "classifier g env c0 = Inr (best s)" using assms by (simp add: classifier_def)
  note mx = running_best_is_max [OF rb]
  have mono: "\<forall>xs ys s1. train_steps g env c0 = xs @ ys \<longrightarrow>
                classifier_loop g env xs (classifier_init g c0) = Inr s1 \<longrightarrow>
                pf_le (best s1) (best s)"
  proof (intro allI impI)
    fix xs ys s1
    assume sp: "train_steps g env c0 = xs @ ys"
      and p: "classifier_loop g env xs (classifier_init g c0) = Inr s1"
    have "classifier_loop g env (xs @ ys) (classifier_init g c0) = Inr s"
      using l sp by simp
    then show "pf_le (best s1) (best s)"
      using p nn by (rule classifier_loop_prefix_mono)
  qed
  show ?thesis
    by (intro conjI c rb mx [THEN conjunct1] mx [THEN conjunct2] mono)
qed

lemma autoencoder_returned:
  assumes "autoencoder_run g env c0 = Inr s"
  shows "autoencoder g env c0 = Inr (best s) \<and>
         running_best pf_lt PInf (evaluated s) (best s) \<and>
         (filter (\<lambda>v. \<not> isnan v) (evaluated s) = [] \<longrightarrow> best s = PInf) \<and>
         (filter (\<lambda>v. \<not> isnan v) (evaluated s) \<noteq> [] \<longrightarrow>
            best s \<in> set (evaluated s) \<and>
            (\<forall>v\<in>set (evaluated s). \<not> isnan v \<longrightarrow> pf_le (best s) v)) \<and>
         (\<forall>xs ys s1. train_steps g env c0 = xs @ ys \<longrightarrow>
            autoencoder_loop g env xs (autoencoder_init g c0) = Inr s1 \<longrightarrow>
            pf_le (best s) (best s1))"
proof -
  have l: "autoencoder_loop g env (train_steps g env c0) (autoencoder_init g c0) = Inr s"
    using assms by (simp add: autoencoder_run_def)
  have init: "running_best pf_lt PInf (evaluated (autoencoder_init g c0))
                (best (autoencoder_init g c0))"
    by (simp add: running_best_def autoencoder_init_def)
  have rb: "running_best pf_lt PInf (evaluated s) (best s)"
    using l init by (rule autoencoder_loop_best)
  have nn: "\<not> isnan (best (autoencoder_init g c0))" by (simp add: autoencoder_init_def)
  have "pf_le (best s) (best (autoencoder_init g c0))"
    using l nn by (rule autoencoder_loop_mono)
  then have nb: "\<not> isnan (best s)" by (simp add: pf_le_def)
  have c: "autoencoder g env c0 = Inr (best s)" using assms by (simp add: autoencoder_def)
  note mn = running_best_is_min [OF rb nb]
  have mono: "\<forall>xs ys s1. train_steps g env c0 = xs @ ys \<longrightarrow>
                autoencoder_loop g env xs (autoencoder_init g c0) = Inr s1 \<longrightarrow>
                pf_le (best s) (best s1)"
  proof (intro allI impI)
    fix xs ys s1
    assume sp: "train_steps g env c0 = xs @ ys"
      and p: "autoencoder_loop g env xs (autoencoder_init g c0) = Inr s1"
    have "autoencoder_loop g env (xs @ ys) (autoencoder_init g c0) = Inr s"
      using l sp by simp
    then show "pf_le (best s) (best s1)"
      using p nn by (rule autoencoder_loop_prefix_mono)
  qed
  show ?thesis
    by (intro conjI c rb mn [THEN conjunct1] mn [THEN conjunct2] mono)
qed

lemma ex_autoencoder_run:
  "\<exists>s. autoencoder_run (ex_globals False True) (ex_env (- 1) ex_values) Map.empty = Inr s \<and>
       evaluated s = [Fin (1 / 2), Fin (3 / 4), Fin (1 / 4)]"
  unfolding autoencoder_run_def ex_steps by (simp add: train_unfold ex_train_defs)

lemma ex_classifier_evaluated:
  "\<exists>s. classifier_run (ex_globals True False) (ex_env (- 1) ex_values) Map.empty = Inr s \<and>
       evaluated s = [Fin (1 / 2), Fin (3 / 4), Fin (1 / 4)]"
  using ex_classifier_run by blast

text \<open>
  Claim C3, as amended. When \<^verbatim>\<open>classifier()\<close> returns, it returns \<^verbatim>\<open>best_va\<close>: 0.0
  if no validation accuracy was evaluated and, the accuracies being at least 0.0, the
  greatest accuracy evaluated at the ends of epochs otherwise. Over the loop
  \<^verbatim>\<open>best_va\<close> never decreases, and an iteration changes it (and saves the best model)
  exactly when the accuracy it evaluates is strictly greater. Dually
  \<^verbatim>\<open>autoencoder()\<close> returns the least of the validation errors evaluated that are not
  NaN, and positive infinity when there is none; \<^verbatim>\<open>best_ve\<close> never increases and
  changes exactly on a strictly lower error. Both functions return when \<^verbatim>\<open>MODEL\<close> is
  a classifier or an autoencoder.
\<close>

theorem best_validation_value_tracked:
  "(\<forall>s. classifier_run g env c0 = Inr s \<longrightarrow>
      classifier g env c0 = Inr (best s) \<and>
      running_best pf_gt (Fin 0) (evaluated s) (best s) \<and>
      (evaluated s = [] \<longrightarrow> best s = Fin 0) \<and>
      ((\<forall>v\<in>set (evaluated s). pf_le (Fin 0) v) \<longrightarrow> evaluated s \<noteq> [] \<longrightarrow>
         best s \<in> set (evaluated s) \<and> (\<forall>v\<in>set (evaluated s). pf_le v (best s))) \<and>
      (\<forall>xs ys s1. train_steps g env c0 = xs @ ys \<longrightarrow>
         classifier_loop g env xs (classifier_init g c0) = Inr s1 \<longrightarrow>
         pf_le (best s1) (best s))) \<and>
   (\<forall>s. autoencoder_run g env c0 = Inr s \<longrightarrow>
      autoencoder g env c0 = Inr (best s) \<and>
      running_best pf_lt PInf (evaluated s) (best s) \<and>
      (filter (\<lambda>v. \<not> isnan v) (evaluated s) = [] \<longrightarrow> best s = PInf) \<and>
      (filter (\<lambda>v. \<not> isnan v) (evaluated s) \<noteq> [] \<longrightarrow>
         best s \<in> set (evaluated s) \<and>
         (\<forall>v\<in>set (evaluated s). \<not> isnan v \<longrightarrow> pf_le (best s) v)) \<and>
      (\<forall>xs ys s1. train_steps g env c0 = xs @ ys \<longrightarrow>
         autoencoder_loop g env xs (autoencoder_init g c0) = Inr s1 \<longrightarrow>
         pf_le (best s) (best s1))) \<and>
   (\<forall>step s s'. classifier_body g env step s = Inr s' \<longrightarrow>
      (epoch_end g step = Inr False \<and> best s' = best s \<and> evaluated s' = evaluated s \<and>
       ckpts s' = ckpts s) \<or>
      (epoch_end g step = Inr True \<and>
       (\<exists>va. fst (eval_model g env ((ckpts s)(LOG_DIR g \<mapsto> step)) (LOG_DIR g)
                    (InputTypeValue validation)) = Inr va \<and>
             evaluated s' = evaluated s @ [va] \<and>
             (if pf_gt va (best s)
              then best s' = va \<and>
                   ckpts s' = (ckpts s)(LOG_DIR g \<mapsto> step, BEST_MODEL_DIR g \<mapsto> step)
              else best s' = best s \<and> ckpts s' = (ckpts s)(LOG_DIR g \<mapsto> step))))) \<and>
   (\<forall>step s s'. autoencoder_body g env step s = Inr s' \<longrightarrow>
      (epoch_end g step = Inr False \<and> best s' = best s \<and> evaluated s' = evaluated s \<and>
       ckpts s' = ckpts s) \<or>
      (epoch_end g step = Inr True \<and>
       (\<exists>ve. fst (eval_model g env ((ckpts s)(LOG_DIR g \<mapsto> step)) (LOG_DIR g)
                    (InputTypeValue validation)) = Inr ve \<and>
             evaluated s' = evaluated s @ [ve] \<and>
             (if pf_lt ve (best s)
              then best s' = ve \<and>
                   ckpts s' = (ckpts s)(LOG_DIR g \<mapsto> step, BEST_MODEL_DIR g \<mapsto> step)
              else best s' = best s \<and> ckpts s' = (ckpts s)(LOG_DIR g \<mapsto> step))))) \<and>
   (MODEL_is_Classifier g \<or> MODEL_is_Autoencoder g \<longrightarrow>
      (\<exists>s. classifier_run g env c0 = Inr s) \<and> (\<exists>s. autoencoder_run g env c0 = Inr s))"
proof -
  have a: "\<forall>s. classifier_run g env c0 = Inr s \<longrightarrow>
      classifier g env c0 = Inr (best s) \<and>
      running_best pf_gt (Fin 0) (evaluated s) (best s) \<and>
      (evaluated s = [] \<longrightarrow> best s = Fin 0) \<and>
      ((\<forall>v\<in>set (evaluated s). pf_le (Fin 0) v) \<longrightarrow> evaluated s \<noteq> [] \<longrightarrow>
         best s \<in> set (evaluated s) \<and> (\<forall>v\<in>set (evaluated s). pf_le v (best s))) \<and>
      (\<forall>xs ys s1. train_steps g env c0 = xs @ ys \<longrightarrow>
         classifier_loop g env xs (classifier_init g c0) = Inr s1 \<longrightarrow>
         pf_le (best s1) (best s))"
    by (intro allI impI) (erule classifier_returned)
  have b: "\<forall>s. autoencoder_run g env c0 = Inr s \<longrightarrow>
      autoencoder g env c0 = Inr (best s) \<and>
      running_best pf_lt PInf (evaluated s) (best s) \<and>
      (filter (\<lambda>v. \<not> isnan v) (evaluated s) = [] \<longrightarrow> best s = PInf) \<and>
      (filter (\<lambda>v. \<not> isnan v) (evaluated s) \<noteq> [] \<longrightarrow>
         best s \<in> set (evaluated s) \<and>
         (\<forall>v\<in>set (evaluated s). \<not> isnan v \<longrightarrow> pf_le (best s) v)) \<and>
      (\<forall>xs ys s1. train_steps g env c0 = xs @ ys \<longrightarrow>
         autoencoder_loop g env xs (autoencoder_init g c0) = Inr s1 \<longrightarrow>
         pf_le (best s) (best s1))"
    by (intro allI impI) (erule autoencoder_returned)
  have c: "\<forall>step s s'. classifier_body g env step s = Inr s' \<longrightarrow>
      (epoch_end g step = Inr False \<and> best s' = best s \<and> evaluated s' = evaluated s \<and>
       ckpts s' = ckpts s) \<or>
      (epoch_end g step = Inr True \<and>
       (\<exists>va. fst (eval_model g env ((ckpts s)(LOG_DIR g \<mapsto> step)) (LOG_DIR g)
                    (InputTypeValue validation)) = Inr va \<and>
             evaluated s' = evaluated s @ [va] \<and>
             (if pf_gt va (best s)
              then best s' = va \<and>
                   ckpts s' = (ckpts s)(LOG_DIR g \<mapsto> step, BEST_MODEL_DIR g \<mapsto> step)
              else best s' = best s \<and> ckpts s' = (ckpts s)(LOG_DIR g \<mapsto> step))))"
    by (intro allI impI) (erule classifier_body_cases)
  have d: "\<forall>step s s'. autoencoder_body g env step s = Inr s' \<longrightarrow>
      (epoch_end g step = Inr False \<and> best s' = best s \<and> evaluated s' = evaluated s \<and>
       ckpts s' = ckpts s) \<or>
      (epoch_end g step = Inr True \<and>
       (\<exists>ve. fst (eval_model g env ((ckpts s)(LOG_DIR g \<mapsto> step)) (LOG_DIR g)
                    (InputTypeValue validation)) = Inr ve \<and>
             evaluated s' = evaluated s @ [ve] \<and>
             (if pf_lt ve (best s)
              then best s' = ve \<and>
                   ckpts s' = (ckpts s)(LOG_DIR g \<mapsto> step, BEST_MODEL_DIR g \<mapsto> step)
              else best s' = best s \<and> ckpts s' = (ckpts s)(LOG_DIR g \<mapsto> step))))"
    by (intro allI impI) (erule autoencoder_body_cases)
  have e: "MODEL_is_Classifier g \<or> MODEL_is_Autoencoder g \<longrightarrow>
      (\<exists>s. classifier_run g env c0 = Inr s) \<and> (\<exists>s. autoencoder_run g env c0 = Inr s)"
    using classifier_run_returns autoencoder_run_returns by blast
  show ?thesis by (intro conjI a b c d e)
qed

theorem best_validation_value_tracked_witness:
  "(\<exists>s. classifier_run (ex_globals True False) (ex_env (- 1) ex_values) Map.empty = Inr s \<and>
        evaluated s = [Fin (1 / 2), Fin (3 / 4), Fin (1 / 4)] \<and> best s = Fin (3 / 4)) \<and>
   classifier (ex_globals True False) (ex_env (- 1) ex_values) Map.empty = Inr (Fin (3 / 4)) \<and>
   (\<exists>s. autoencoder_run (ex_globals False True) (ex_env (- 1) ex_values) Map.empty = Inr s \<and>
        evaluated s = [Fin (1 / 2), Fin (3 / 4), Fin (1 / 4)] \<and> best s = Fin (1 / 4)) \<and>
   autoencoder (ex_globals False True) (ex_env (- 1) ex_values) Map.empty = Inr (Fin (1 / 4))"
proof -
  obtain s where s: "classifier_run (ex_globals True False) (ex_env (- 1) ex_values) Map.empty = Inr s"
    and es: "evaluated s = [Fin (1 / 2), Fin (3 / 4), Fin (1 / 4)]"
    using ex_classifier_evaluated by blast
  note th = best_validation_value_tracked
    [of "ex_globals True False" "ex_env (- 1) ex_values" Map.empty]
  have cs: "classifier (ex_globals True False) (ex_env (- 1) ex_values) Map.empty = Inr (best s)"
    and mx: "(\<forall>v\<in>set (evaluated s). pf_le (Fin 0) v) \<longrightarrow> evaluated s \<noteq> [] \<longrightarrow>
         best s \<in> set (evaluated s) \<and> (\<forall>v\<in>set (evaluated s). pf_le v (best s))"
    using th s by blast+
  have "best s \<in> set (evaluated s) \<and> (\<forall>v\<in>set (evaluated s). pf_le v (best s))"
    using mx by (simp add: es pf_le_def)
  then have bs: "best s = Fin (3 / 4)"
    by (auto simp: es pf_le_def)
  obtain t where t: "autoencoder_run (ex_globals False True) (ex_env (- 1) ex_values) Map.empty = Inr t"
    and et: "evaluated t = [Fin (1 / 2), Fin (3 / 4), Fin (1 / 4)]"
    using ex_autoencoder_run by blast
  note th' = best_validation_value_tracked
    [of "ex_globals False True" "ex_env (- 1) ex_values" Map.empty]
  have ct: "autoencoder (ex_globals False True) (ex_env (- 1) ex_values) Map.empty = Inr (best t)"
    and mn: "filter (\<lambda>v. \<not> isnan v) (evaluated t) \<noteq> [] \<longrightarrow>
         best t \<in> set (evaluated t) \<and>
         (\<forall>v\<in>set (evaluated t). \<not> isnan v \<longrightarrow> pf_le (best t) v)"
    using th' t by blast+
  have "best t \<in> set (evaluated t) \<and> (\<forall>v\<in>set (evaluated t). \<not> isnan v \<longrightarrow> pf_le (best t) v)"
    using mn by (simp add: et)
  then have bt: "best t = Fin (1 / 4)"
    by (auto simp: et pf_le_def)
  show ?thesis using s es bs cs t et bt ct by simp
qed

text \<open>
  The claim as stated fails for \<^verbatim>\<open>autoencoder()\<close>. A run that resumes on the
  checkpoint of its last step has no step left and evaluates nothing; a run whose
  evaluations all give NaN never updates \<^verbatim>\<open>best_ve\<close>. Both return positive infinity,
  which is not a validation error that was evaluated.
\<close>

theorem best_validation_value_counterexample:
  "autoencoder ex_globals_resumed (ex_env (- 1) ex_values) ex_finished = Inr PInf \<and>
   (case autoencoder_run ex_globals_resumed (ex_env (- 1) ex_values) ex_finished of
      Inl e \<Rightarrow> Inl e | Inr s \<Rightarrow> Inr (evaluated s)) = Inr [] \<and>
   autoencoder (ex_globals False True) (ex_env (- 1) (\<lambda>c. NaN)) Map.empty = Inr PInf \<and>
   (case autoencoder_run (ex_globals False True) (ex_env (- 1) (\<lambda>c. NaN)) Map.empty of
      Inl e \<Rightarrow> Inl e | Inr s \<Rightarrow> Inr (evaluated s)) = Inr [NaN, NaN, NaN]"
proof -
  have st: "train_steps ex_globals_resumed (ex_env (- 1) ex_values) ex_finished = []"
    by (simp add: train_steps_def old_gs_def MAX_STEPS_def STEPS_PER_EPOCH_def LOG_DIR_def
        path_join_def ex_globals_resumed_def ex_globals_def ex_finished_def ex_env_def)
  have r1: "autoencoder_run ex_globals_resumed (ex_env (- 1) ex_values) ex_finished =
      Inr (autoencoder_init ex_globals_resumed ex_finished)"
    by (simp add: autoencoder_run_def st)
  have r2: "\<exists>s. autoencoder_run (ex_globals False True) (ex_env (- 1) (\<lambda>c. NaN)) Map.empty = Inr s \<and>
      best s = PInf \<and> evaluated s = [NaN, NaN, NaN]"
    unfolding autoencoder_run_def ex_steps
    by (simp add: train_unfold ex_globals_def ex_env_def STEPS_PER_EPOCH_def MAX_STEPS_def
        LOG_DIR_def BEST_MODEL_DIR_def path_join_def)
  show ?thesis
    using r2 by (auto simp: autoencoder_def r1 autoencoder_init_def)
qed

subsection \<open>A NaN loss\<close>

lemma ex_prefix_runs:
  "\<exists>s. classifier_loop (ex_globals True False) (ex_env 3 ex_values) [0, 1, 2]
          (classifier_init (ex_globals True False) Map.empty) = Inr s \<and> best s = Fin (3 / 4)"
  "\<exists>s. autoencoder_loop (ex_globals True False) (ex_env 3 ex_values) [0, 1, 2]
          (autoencoder_init (ex_globals True False) Map.empty) = Inr s \<and> best s = Fin (1 / 2)"
  by (simp_all add: train_unfold ex_train_defs)

text \<open>
  Claim C5. When the loop reaches a step \<open>k\<close> whose loss is NaN (the steps \<open>xs\<close> before
  it ran, in the state \<open>s\<close>), \<^verbatim>\<open>classifier()\<close> and \<^verbatim>\<open>autoencoder()\<close> print the
  message, run neither the rest of step \<open>k\<close> nor any later step, and return the best
  validation value of \<open>s\<close>. The steps before \<open>k\<close> do run when \<^verbatim>\<open>MODEL\<close> is a classifier
  or an autoencoder.
\<close>

theorem nan_loss_ends_training:
  assumes "train_steps g env c0 = xs @ k # ys"
    and "isnan (loss_value env k)"
    and "\<forall>j\<in>set xs. \<not> isnan (loss_value env j)"
  shows
    "(\<forall>s. classifier_loop g env xs (classifier_init g c0) = Inr s \<longrightarrow>
        classifier_run g env c0 =
          Inr (s\<lparr>out := out s @ [''Model diverged with loss = NaN'']\<rparr>) \<and>
        classifier g env c0 = Inr (best s)) \<and>
     (\<forall>s. autoencoder_loop g env xs (autoencoder_init g c0) = Inr s \<longrightarrow>
        autoencoder_run g env c0 =
          Inr (s\<lparr>out := out s @ [''Model diverged with loss = NaN'']\<rparr>) \<and>
        autoencoder g env c0 = Inr (best s)) \<and>
     (MODEL_is_Classifier g \<or> MODEL_is_Autoencoder g \<longrightarrow>
        (\<exists>s. classifier_loop g env xs (classifier_init g c0) = Inr s) \<and>
        (\<exists>s. autoencoder_loop g env xs (autoencoder_init g c0) = Inr s))"
proof (intro conjI allI impI)
  fix s
  assume l: "classifier_loop g env xs (classifier_init g c0) = Inr s"
  show r: "classifier_run g env c0 =
          Inr (s\<lparr>out := out s @ [''Model diverged with loss = NaN'']\<rparr>)"
    using classifier_loop_nan [OF assms(2,3) l, of ys] assms(1) by (simp add: classifier_run_def)
  show "classifier g env c0 = Inr (best s)"
    using r by (simp add: classifier_def)
next
  fix s
  assume l: "autoencoder_loop g env xs (autoencoder_init g c0) = Inr s"
  show r: "autoencoder_run g env c0 =
          Inr (s\<lparr>out := out s @ [''Model diverged with loss = NaN'']\<rparr>)"
    using autoencoder_loop_nan [OF assms(2,3) l, of ys] assms(1) by (simp add: autoencoder_run_def)
  show "autoencoder g env c0 = Inr (best s)"
    using r by (simp add: autoencoder_def)
next
  assume sup: "MODEL_is_Classifier g \<or> MODEL_is_Autoencoder g"
  have nz: "STEPS_PER_EPOCH g \<noteq> 0"
    using assms(1) zero_steps_per_epoch [of g env c0] by auto
  show "\<exists>s. classifier_loop g env xs (classifier_init g c0) = Inr s"
    using sup nz by (rule classifier_loop_returns)
  show "\<exists>s. autoencoder_loop g env xs (autoencoder_init g c0) = Inr s"
    using sup nz by (rule autoencoder_loop_returns)
qed

theorem nan_loss_ends_training_witness:
  "isnan (loss_value (ex_env 3 ex_values) 3) \<and>
   classifier (ex_globals True False) (ex_env 3 ex_values) Map.empty = Inr (Fin (3 / 4)) \<and>
   autoencoder (ex_globals True False) (ex_env 3 ex_values) Map.empty = Inr (Fin (1 / 2))"
proof -
  have st: "train_steps (ex_globals True False) (ex_env 3 ex_values) Map.empty = [0, 1, 2] @ 3 # []"
    by (simp add: ex_steps)
  have nan: "isnan (loss_value (ex_env 3 ex_values) 3)" by (simp add: ex_env_def)
  have pre: "\<forall>j\<in>set [0, 1, 2]. \<not> isnan (loss_value (ex_env 3 ex_values) j)"
    by (simp add: ex_env_def)
  note th = nan_loss_ends_training [OF st nan pre]
  obtain s where "classifier_loop (ex_globals True False) (ex_env 3 ex_values) [0, 1, 2]
          (classifier_init (ex_globals True False) Map.empty) = Inr s" and "best s = Fin (3 / 4)"
    using ex_prefix_runs(1) by blast
  then have c: "classifier (ex_globals True False) (ex_env 3 ex_values) Map.empty = Inr (Fin (3 / 4))"
    using th by auto
  obtain s' where "autoencoder_loop (ex_globals True False) (ex_env 3 ex_values) [0, 1, 2]
          (autoencoder_init (ex_globals True False) Map.empty) = Inr s'" and "best s' = Fin (1 / 2)"
    using ex_prefix_runs(2) by blast
  then have a: "autoencoder (ex_globals True False) (ex_env 3 ex_values) Map.empty = Inr (Fin (1 / 2))"
    using th by auto
  show ?thesis using nan c a by simp
qed

subsection \<open>\<^verbatim>\<open>eval_model\<close>, \<^verbatim>\<open>train\<close> and the main block\<close>

text \<open>
  Claim C10. \<^verbatim>\<open>eval_model\<close> raises \<^verbatim>\<open>ValueError\<close>, without any call into
  \<^verbatim>\<open>evaluate\<close>, for an \<^verbatim>\<open>input_type\<close> that is not an \<^verbatim>\<open>InputType\<close>, and for any
  \<^verbatim>\<open>input_type\<close> when \<^verbatim>\<open>MODEL\<close> is neither a classifier nor an autoencoder;
  \<^verbatim>\<open>train()\<close> raises \<^verbatim>\<open>ValueError\<close> for such a model too.
\<close>

theorem eval_model_and_train_value_errors:
  "eval_model g env c checkpoint_dir OtherObject =
     (Inl (ValueError ''Invalid input_type, required a valid InputType''), []) \<and>
   (\<not> MODEL_is_Classifier g \<and> \<not> MODEL_is_Autoencoder g \<longrightarrow>
      (\<exists>msg. eval_model g env c checkpoint_dir input_type = (Inl (ValueError msg), [])) \<and>
      train_fn g env c0 = Inl (ValueError ''train method not defined for this model type''))"
  by (cases input_type) (simp_all add: eval_model_def train_fn_def)

theorem eval_model_and_train_value_errors_witness:
  "eval_model (ex_globals False False) (ex_env (- 1) ex_values) Map.empty ''/bench/log''
      (InputTypeValue test)
     = (Inl (ValueError ''Evaluate method not defined for this model type''), []) \<and>
   train_fn (ex_globals False False) (ex_env (- 1) ex_values) Map.empty
     = Inl (ValueError ''train method not defined for this model type'')"
  using eval_model_and_train_value_errors [of "ex_globals False False" "ex_env (- 1) ex_values"
      Map.empty "''/bench/log''" "InputTypeValue test" Map.empty]
  by (simp add: ex_globals_def eval_model_def)










end
